theory Spec2Isabelle
  imports Complex_Main "HOL-Library.List_Lexorder" "HOL-Library.Product_Lexorder" "HOL-Library.Multiset"
begin

section \<open>Strings and values\<close>

text \<open>
  A Python \<open>str\<close> is a sequence of Unicode code points: indexing, slicing,
  \<open>startswith\<close> and the comparison of two strings all work code point by code
  point. It is modelled as a list of code points; the lexicographic order of
  \<open>List_Lexorder\<close> on such lists is Python's \<open><\<close> on strings. ASCII
  literals are written through \<open>ascii\<close>, the Japanese literals of the script by
  their code points.

  A Python \<open>float\<close> is modelled by a real number: negation, the product with an
  integer unit factor, sums and differences are exact. Rounding of binary64, the
  infinities and NaN are outside the model.
\<close>

type_synonym pystr = "nat list"

definition ascii :: "string \<Rightarrow> pystr" where
  "ascii s = map of_char s"

text \<open>\<open>str.isspace\<close> of one code point, and \<open>str.strip()\<close>.\<close>

definition py_isspace :: "nat \<Rightarrow> bool" where
  "py_isspace c \<longleftrightarrow>
     (9 \<le> c \<and> c \<le> 13) \<or> (28 \<le> c \<and> c \<le> 32) \<or> c = 133 \<or> c = 160 \<or> c = 5760 \<or>
     (8192 \<le> c \<and> c \<le> 8202) \<or> c = 8232 \<or> c = 8233 \<or> c = 8239 \<or> c = 8287 \<or> c = 12288"

definition py_rstrip :: "pystr \<Rightarrow> pystr" where
  "py_rstrip s = rev (dropWhile py_isspace (rev s))"

definition py_strip :: "pystr \<Rightarrow> pystr" where
  "py_strip s = py_rstrip (dropWhile py_isspace s)"

definition startswith :: "pystr \<Rightarrow> pystr \<Rightarrow> bool" where
  "startswith s p \<longleftrightarrow> take (length p) s = p"

definition endswith :: "pystr \<Rightarrow> pystr \<Rightarrow> bool" where
  "endswith s p \<longleftrightarrow> length p \<le> length s \<and> drop (length s - length p) s = p"

text \<open>\<open>s.replace(",", "")\<close>.\<close>

definition remove_commas :: "pystr \<Rightarrow> pystr" where
  "remove_commas s = filter (\<lambda>c. c \<noteq> 44) s"

section \<open>Constants of the script\<close>

text \<open>The yen unit labels: U+5186; U+5343 U+5186; U+767E U+4E07 U+5186; U+5104 U+5186.\<close>

definition YEN :: pystr where "YEN = [20870]"
definition SEN_YEN :: pystr where "SEN_YEN = [21315, 20870]"
definition HYAKUMAN_YEN :: pystr where "HYAKUMAN_YEN = [30334, 19975, 20870]"
definition OKU_YEN :: pystr where "OKU_YEN = [20740, 20870]"

definition UNIT_MAP :: "(pystr \<times> int) list" where
  "UNIT_MAP = [(YEN, 1), (SEN_YEN, 1000), (HYAKUMAN_YEN, 1000000), (OKU_YEN, 100000000),
               (ascii ''JPY'', 1)]"

text \<open>\<open>UNIT_MAP.get(unit, 1)\<close>; the unit cell of a row may be null.\<close>

definition unit_multiplier :: "pystr option \<Rightarrow> int" where
  "unit_multiplier unit =
     (case unit of None \<Rightarrow> 1
      | Some u \<Rightarrow> (case map_of UNIT_MAP u of None \<Rightarrow> 1 | Some m \<Rightarrow> m))"

text \<open>
  The placeholders of a missing value: the empty string, U+FF0D, U+002D, U+2015,
  U+30FC, U+2212, and the texts \<open>nan\<close> and \<open>None\<close>.
\<close>

definition MISSING_PATTERNS :: "pystr list" where
  "MISSING_PATTERNS = [[], [65293], [45], [8213], [12540], [8722], ascii ''nan'', ascii ''None'']"

text \<open>The two negative glyphs, U+25B3 and U+25B2.\<close>

definition SANKAKU_WHITE :: nat where "SANKAKU_WHITE = 9651"
definition SANKAKU_BLACK :: nat where "SANKAKU_BLACK = 9650"

section \<open>Value Normalizer\<close>

text \<open>
  \<open>normalize_value(value_str, unit)\<close>. The builtin \<open>float\<close> is not code of the
  script: it is the parameter \<open>fl\<close>, \<open>None\<close> where \<open>float\<close> raises
  \<open>ValueError\<close>. The cell is \<open>None\<close> where the table holds null.
\<close>

definition normalize_value :: "(pystr \<Rightarrow> real option) \<Rightarrow> pystr option \<Rightarrow> pystr option \<Rightarrow> real option" where
  "normalize_value fl value_str unit =
     (case value_str of
        None \<Rightarrow> None
      | Some raw \<Rightarrow>
          (let s0 = py_strip raw in
           if s0 \<in> set MISSING_PATTERNS then None
           else
             (let s1 = remove_commas s0;
                  is_negative = ((startswith s1 [40] \<and> endswith s1 [41]) \<or>
                                 startswith s1 [SANKAKU_WHITE] \<or> startswith s1 [SANKAKU_BLACK]);
                  s2 = (if startswith s1 [40] \<and> endswith s1 [41] then butlast (tl s1)
                        else if startswith s1 [SANKAKU_WHITE] \<or> startswith s1 [SANKAKU_BLACK]
                        then tl s1 else s1)
              in case fl s2 of
                   None \<Rightarrow> None
                 | Some v \<Rightarrow>
                     Some ((if is_negative then - v else v) * of_int (unit_multiplier unit)))))"

text \<open>
  \<open>float\<close> on plain decimal literals, for evaluating examples: optional blanks
  around, an optional sign, digits with an optional fraction. On these texts Python's
  \<open>float\<close> returns the same number (up to binary64 rounding); the other texts
  \<open>float\<close> accepts (exponents, underscores, \<open>inf\<close>, \<open>nan\<close>) are not covered
  and no general theorem below depends on this function.
\<close>

definition is_digit :: "nat \<Rightarrow> bool" where
  "is_digit c \<longleftrightarrow> 48 \<le> c \<and> c \<le> 57"

definition digits_val :: "pystr \<Rightarrow> nat" where
  "digits_val ds = foldl (\<lambda>a d. 10 * a + (d - 48)) 0 ds"

definition unsigned_dec :: "pystr \<Rightarrow> real option" where
  "unsigned_dec t =
     (let ip = takeWhile is_digit t; rest = dropWhile is_digit t in
      case rest of
        [] \<Rightarrow> (if ip = [] then None else Some (real (digits_val ip)))
      | c # fp \<Rightarrow>
          (if c = 46 \<and> list_all is_digit fp \<and> (ip \<noteq> [] \<or> fp \<noteq> [])
           then Some (real (digits_val ip) + real (digits_val fp) / 10 ^ length fp)
           else None))"

definition float_dec :: "pystr \<Rightarrow> real option" where
  "float_dec s =
     (case py_strip s of
        [] \<Rightarrow> None
      | c # cs \<Rightarrow>
          (if c = 45 then map_option uminus (unsigned_dec cs)
           else if c = 43 then unsigned_dec cs
           else unsigned_dec (c # cs)))"

section \<open>The loaded filing table\<close>

text \<open>
  The table is read with every column as a string column, so a cell is a string or
  null (\<open>None\<close>). A frame may lack a column altogether; an expression over a
  missing column raises, and a row's \<open>get\<close> then returns its default.
\<close>

datatype col =
    COL_ELEMENT_ID | COL_VALUE | COL_RELATIVE_YEAR | COL_PERIOD_TYPE
  | COL_CONSOLIDATED | COL_CONTEXT_ID | COL_UNIT

record fact_row =
  element_id :: "pystr option"
  relative_year :: "pystr option"
  period_type :: "pystr option"
  consolidated :: "pystr option"
  context_id :: "pystr option"
  value_text :: "pystr option"
  unit_text :: "pystr option"

record dataframe =
  df_columns :: "col list"
  df_rows :: "fact_row list"

text \<open>The labels of the table: U+5F53 U+671F and so on.\<close>

definition TOUKI :: pystr where "TOUKI = [24403, 26399]"
definition ZENKI :: pystr where "ZENKI = [21069, 26399]"
definition TOUKIMATSU :: pystr where "TOUKIMATSU = [24403, 26399, 26411]"
definition ZENKIMATSU :: pystr where "ZENKIMATSU = [21069, 26399, 26411]"
definition KIKAN :: pystr where "KIKAN = [26399, 38291]"
definition JITEN :: pystr where "JITEN = [26178, 28857]"
definition RENKETSU :: pystr where "RENKETSU = [36899, 32080]"
definition KOBETSU :: pystr where "KOBETSU = [20491, 21029]"

definition JPPFS_PREFIX :: pystr where "JPPFS_PREFIX = ascii ''jppfs_cor:''"

definition ELEMENT_NET_SALES :: "pystr list" where
  "ELEMENT_NET_SALES = [ascii ''NetSales'', ascii ''NetSalesOfCompletedConstructionContracts'']"

definition ELEMENT_PROFIT_LOSS :: "pystr list" where
  "ELEMENT_PROFIT_LOSS = [ascii ''ProfitLoss'', ascii ''ProfitLossAttributableToOwnersOfParent'']"

definition ELEMENT_OPERATING_CF :: "pystr list" where
  "ELEMENT_OPERATING_CF = [ascii ''NetCashProvidedByUsedInOperatingActivities'']"

definition ELEMENT_ASSETS :: "pystr list" where
  "ELEMENT_ASSETS = [ascii ''Assets'']"

definition ELEMENT_REC_BASE :: "pystr list" where
  "ELEMENT_REC_BASE =
     [ascii ''NotesAndAccountsReceivableTrade'',
      ascii ''NotesAndAccountsReceivableTradeAndContractAssets'',
      ascii ''ReceivablesTradeAndContractAssets'',
      ascii ''AccountsReceivableTrade'',
      ascii ''TradeAndOtherReceivables'',
      ascii ''NotesReceivableTrade'',
      ascii ''AccountsReceivableOther'',
      ascii ''AccountsReceivableFromCompletedConstructionContracts'',
      ascii ''NotesReceivableAccountsReceivableFromCompletedConstructionContractsAndOtherCNS'']"

definition ELEMENT_ECLAIMS :: "pystr list" where
  "ELEMENT_ECLAIMS =
     [ascii ''ElectronicallyRecordedMonetaryClaimsOperatingCA'',
      ascii ''ElectronicallyRecordedMonetaryClaimsOperating'']"

definition ELEMENT_PPE :: "pystr list" where
  "ELEMENT_PPE = [ascii ''PropertyPlantAndEquipment'', ascii ''PropertyPlantAndEquipmentNet'']"

subsection \<open>Column expressions of the polars backend\<close>

text \<open>
  A polars expression evaluates, per row, to true, false or null (\<open>None\<close>): a
  comparison or \<open>str.contains\<close> on a null cell is null, \<open>~\<close> keeps null, and
  \<open>&\<close> is Kleene's conjunction. \<open>filter\<close> keeps the rows on which the
  expression is true, so it drops those on which it is null.
\<close>

fun py_contains :: "pystr \<Rightarrow> pystr \<Rightarrow> bool" where
  "py_contains [] p = (p = [])"
| "py_contains (c # cs) p = (startswith (c # cs) p \<or> py_contains cs p)"

definition pl_eq :: "pystr option \<Rightarrow> pystr \<Rightarrow> bool option" where
  "pl_eq cell s = map_option (\<lambda>c. c = s) cell"

definition pl_contains :: "pystr option \<Rightarrow> pystr \<Rightarrow> bool option" where
  "pl_contains cell p = map_option (\<lambda>c. py_contains c p) cell"

definition pl_not :: "bool option \<Rightarrow> bool option" where
  "pl_not a = map_option Not a"

definition pl_and :: "bool option \<Rightarrow> bool option \<Rightarrow> bool option" where
  "pl_and a b =
     (if a = Some False \<or> b = Some False then Some False
      else if a = None \<or> b = None then None
      else Some True)"

definition pl_filter :: "(fact_row \<Rightarrow> bool option) \<Rightarrow> fact_row list \<Rightarrow> fact_row list" where
  "pl_filter e rs = filter (\<lambda>r. e r = Some True) rs"

definition MEMBER :: pystr where "MEMBER = ascii ''Member''"
definition NON_CONSOLIDATED_MEMBER :: pystr where "NON_CONSOLIDATED_MEMBER = ascii ''NonConsolidatedMember''"
definition CONSOLIDATED_MEMBER :: pystr where "CONSOLIDATED_MEMBER = ascii ''ConsolidatedMember''"

text \<open>The four-column match of one candidate tag.\<close>

definition match_expr :: "pystr \<Rightarrow> pystr \<Rightarrow> pystr \<Rightarrow> pystr \<Rightarrow> fact_row \<Rightarrow> bool option" where
  "match_expr full_elem_id rel_year ptype cons r =
     pl_and (pl_and (pl_and (pl_eq (element_id r) full_elem_id)
                            (pl_eq (relative_year r) rel_year))
                    (pl_eq (period_type r) ptype))
            (pl_eq (consolidated r) cons)"

text \<open>The segment-member exclusion, as the polars backend writes it.\<close>

definition segment_expr :: "fact_row \<Rightarrow> bool option" where
  "segment_expr r =
     pl_not (pl_and (pl_and (pl_contains (context_id r) MEMBER)
                            (pl_not (pl_contains (context_id r) NON_CONSOLIDATED_MEMBER)))
                    (pl_not (pl_contains (context_id r) CONSOLIDATED_MEMBER)))"

text \<open>\<open>row.get("value", "")\<close> and \<open>row.get("unit", "yen")\<close> of a row of the frame.\<close>

definition row_value :: "dataframe \<Rightarrow> fact_row \<Rightarrow> pystr option" where
  "row_value df r = (if COL_VALUE \<in> set (df_columns df) then value_text r else Some [])"

definition row_unit :: "dataframe \<Rightarrow> fact_row \<Rightarrow> pystr option" where
  "row_unit df r = (if COL_UNIT \<in> set (df_columns df) then unit_text r else Some YEN)"

text \<open>
  Python's \<open>max\<close> of a list: the first element, replaced by each later one that is
  greater. It is only called on a non-empty list.
\<close>

definition py_max :: "real list \<Rightarrow> real option" where
  "py_max vs = (case vs of [] \<Rightarrow> None | v # ws \<Rightarrow> Some (foldl (\<lambda>m w. if w > m then w else m) v ws))"

section \<open>Fact Resolver\<close>

text \<open>
  The rows of one candidate tag that pass both filters. \<open>None\<close> is the exception
  a filter over a missing column raises.
\<close>

definition filtered_rows :: "dataframe \<Rightarrow> pystr \<Rightarrow> pystr \<Rightarrow> pystr \<Rightarrow> pystr \<Rightarrow> fact_row list option" where
  "filtered_rows df full_elem_id rel_year ptype cons =
     (if \<not> set [COL_ELEMENT_ID, COL_RELATIVE_YEAR, COL_PERIOD_TYPE, COL_CONSOLIDATED]
            \<subseteq> set (df_columns df)
      then None
      else
        (let filtered = pl_filter (match_expr full_elem_id rel_year ptype cons) (df_rows df)
         in Some (if COL_CONTEXT_ID \<in> set (df_columns df)
                  then pl_filter segment_expr filtered else filtered)))"

text \<open>
  The body of the loop over the candidate tags, shared word for word by
  \<open>_extract_value_polars\<close> and \<open>_extract_value_polars_with_eid\<close>: \<open>None\<close> is
  \<open>continue\<close> (also after a caught exception), \<open>Some v\<close> is \<open>return\<close>.
\<close>

definition try_element :: "(pystr \<Rightarrow> real option) \<Rightarrow> dataframe \<Rightarrow> pystr \<Rightarrow> pystr \<Rightarrow> pystr \<Rightarrow> pystr \<Rightarrow> real option" where
  "try_element fl df full_elem_id rel_year ptype cons =
     (case filtered_rows df full_elem_id rel_year ptype cons of
        None \<Rightarrow> None
      | Some filtered \<Rightarrow>
          (if filtered = [] then None
           else py_max (List.map_filter
                          (\<lambda>r. normalize_value fl (row_value df r) (row_unit df r)) filtered)))"

fun extract_value_polars ::
  "(pystr \<Rightarrow> real option) \<Rightarrow> dataframe \<Rightarrow> pystr list \<Rightarrow> pystr \<Rightarrow> pystr \<Rightarrow> pystr \<Rightarrow> pystr \<Rightarrow> real option" where
  "extract_value_polars fl df [] rel_year ptype cons prefix = None"
| "extract_value_polars fl df (elem_id # rest) rel_year ptype cons prefix =
     (case try_element fl df (prefix @ elem_id) rel_year ptype cons of
        Some v \<Rightarrow> Some v
      | None \<Rightarrow> extract_value_polars fl df rest rel_year ptype cons prefix)"

fun extract_value_polars_with_eid ::
  "(pystr \<Rightarrow> real option) \<Rightarrow> dataframe \<Rightarrow> pystr list \<Rightarrow> pystr \<Rightarrow> pystr \<Rightarrow> pystr \<Rightarrow> pystr
     \<Rightarrow> real option \<times> pystr option" where
  "extract_value_polars_with_eid fl df [] rel_year ptype cons prefix = (None, None)"
| "extract_value_polars_with_eid fl df (elem_id # rest) rel_year ptype cons prefix =
     (case try_element fl df (prefix @ elem_id) rel_year ptype cons of
        Some v \<Rightarrow> (Some v, Some elem_id)
      | None \<Rightarrow> extract_value_polars_with_eid fl df rest rel_year ptype cons prefix)"

text \<open>The two entry points, with polars installed and the default prefix.\<close>

definition extract_value_with_fallback ::
  "(pystr \<Rightarrow> real option) \<Rightarrow> dataframe \<Rightarrow> pystr list \<Rightarrow> pystr \<Rightarrow> pystr \<Rightarrow> pystr \<Rightarrow> real option" where
  "extract_value_with_fallback fl df element_ids rel_year ptype cons =
     extract_value_polars fl df element_ids rel_year ptype cons JPPFS_PREFIX"

definition extract_value_with_fallback_and_eid ::
  "(pystr \<Rightarrow> real option) \<Rightarrow> dataframe \<Rightarrow> pystr list \<Rightarrow> pystr \<Rightarrow> pystr \<Rightarrow> pystr
     \<Rightarrow> real option \<times> pystr option" where
  "extract_value_with_fallback_and_eid fl df element_ids rel_year ptype cons =
     extract_value_polars_with_eid fl df element_ids rel_year ptype cons JPPFS_PREFIX"

subsection \<open>The pandas backend of the resolver\<close>

text \<open>
  \<open>_extract_value_pandas_with_eid\<close>, on object columns (a cell is a string or NaN,
  here \<open>None\<close>). Its masks are plain booleans: a comparison with NaN is false and
  \<open>str.contains(..., na=False)\<close> is false on NaN. A NaN value cell becomes the text
  \<open>nan\<close> and a NaN unit misses the unit table, as a null does.
\<close>

definition pd_mask :: "pystr \<Rightarrow> pystr \<Rightarrow> pystr \<Rightarrow> pystr \<Rightarrow> fact_row \<Rightarrow> bool" where
  "pd_mask full_elem_id rel_year ptype cons r \<longleftrightarrow>
     element_id r = Some full_elem_id \<and> relative_year r = Some rel_year \<and>
     period_type r = Some ptype \<and> consolidated r = Some cons"

definition pd_contains :: "pystr option \<Rightarrow> pystr \<Rightarrow> bool" where
  "pd_contains cell p = (case cell of None \<Rightarrow> False | Some c \<Rightarrow> py_contains c p)"

definition pd_segment_keep :: "fact_row \<Rightarrow> bool" where
  "pd_segment_keep r \<longleftrightarrow>
     \<not> (pd_contains (context_id r) MEMBER \<and> \<not> pd_contains (context_id r) NON_CONSOLIDATED_MEMBER
        \<and> \<not> pd_contains (context_id r) CONSOLIDATED_MEMBER)"

definition pd_try_element :: "(pystr \<Rightarrow> real option) \<Rightarrow> dataframe \<Rightarrow> pystr \<Rightarrow> pystr \<Rightarrow> pystr \<Rightarrow> pystr \<Rightarrow> real option" where
  "pd_try_element fl df full_elem_id rel_year ptype cons =
     (if \<not> set [COL_ELEMENT_ID, COL_RELATIVE_YEAR, COL_PERIOD_TYPE, COL_CONSOLIDATED]
            \<subseteq> set (df_columns df)
      then None
      else
        (let filtered = filter (pd_mask full_elem_id rel_year ptype cons) (df_rows df);
             filtered2 = (if COL_CONTEXT_ID \<in> set (df_columns df)
                          then filter pd_segment_keep filtered else filtered)
         in if filtered2 = [] then None
            else py_max (List.map_filter
                           (\<lambda>r. normalize_value fl (row_value df r) (row_unit df r)) filtered2)))"

fun extract_value_pandas_with_eid ::
  "(pystr \<Rightarrow> real option) \<Rightarrow> dataframe \<Rightarrow> pystr list \<Rightarrow> pystr \<Rightarrow> pystr \<Rightarrow> pystr \<Rightarrow> pystr
     \<Rightarrow> real option \<times> pystr option" where
  "extract_value_pandas_with_eid fl df [] rel_year ptype cons prefix = (None, None)"
| "extract_value_pandas_with_eid fl df (elem_id # rest) rel_year ptype cons prefix =
     (case pd_try_element fl df (prefix @ elem_id) rel_year ptype cons of
        Some v \<Rightarrow> (Some v, Some elem_id)
      | None \<Rightarrow> extract_value_pandas_with_eid fl df rest rel_year ptype cons prefix)"

section \<open>Scope selection\<close>

text \<open>
  The loop of \<open>check_has_consolidated_data\<close> over the tags, inside its
  \<open>try\<close>: a filter over a missing column raises and the function returns false.
\<close>

fun consolidated_tag_found :: "col list \<Rightarrow> fact_row list \<Rightarrow> pystr list \<Rightarrow> bool" where
  "consolidated_tag_found cols consolidated_rows [] = False"
| "consolidated_tag_found cols consolidated_rows (elem_id # rest) =
     (if \<not> set [COL_ELEMENT_ID, COL_RELATIVE_YEAR] \<subseteq> set cols then False
      else if pl_filter (\<lambda>r. pl_and (pl_eq (element_id r) (JPPFS_PREFIX @ elem_id))
                                     (pl_eq (relative_year r) TOUKI)) consolidated_rows \<noteq> []
      then True
      else consolidated_tag_found cols consolidated_rows rest)"

definition check_has_consolidated_data :: "dataframe \<Rightarrow> pystr list option \<Rightarrow> bool" where
  "check_has_consolidated_data df element_ids =
     (let ids = (case element_ids of None \<Rightarrow> ELEMENT_NET_SALES | Some e \<Rightarrow> e) in
      if COL_CONSOLIDATED \<notin> set (df_columns df) then False
      else
        (let consolidated_rows = pl_filter (\<lambda>r. pl_eq (consolidated r) RENKETSU) (df_rows df)
         in if consolidated_rows = [] then False
            else consolidated_tag_found (df_columns df) consolidated_rows ids))"

section \<open>Records of the script\<close>

text \<open>
  A \<open>pathlib.Path\<close> is used through \<open>str(path)\<close> and \<open>path.name\<close> only.
  Fields that several dataclasses share carry the dataclass as a prefix.
\<close>

record pypath =
  path_str :: pystr
  path_name :: pystr

record TSVMetadata =
  meta_tsv_path :: pypath
  meta_edinet_code :: pystr
  accounting_standard :: "pystr option"
  meta_fiscal_year :: "int option"
  fiscal_year_start :: "pystr option"
  fiscal_year_end :: "pystr option"
  meta_submit_datetime :: "pystr option"
  meta_doc_id :: "pystr option"
  has_ifrs_us_gaap :: bool

record company_info =
  ci_sec_code :: "pystr option"
  ci_company_name :: "pystr option"
  ci_industry :: "pystr option"
  ci_market :: "pystr option"

record MJInput =
  mj_edinet_code :: pystr
  sec_code :: "pystr option"
  company_name :: "pystr option"
  industry :: "pystr option"
  market :: "pystr option"
  mj_fiscal_year :: "int option"
  period_end :: "pystr option"
  mj_submit_datetime :: "pystr option"
  mj_doc_id :: "pystr option"
  mj_tsv_path :: "pystr option"
  mj_is_consolidated :: "bool option"
  assets_prev_end :: "real option"
  rev_t :: "real option"
  rev_t1 :: "real option"
  ar_end_t :: "real option"
  ar_end_t1 :: "real option"
  ar_end_t_no_e :: "real option"
  ar_end_t1_no_e :: "real option"
  eclaims_end_t :: "real option"
  eclaims_end_t1 :: "real option"
  mj_rec_rule :: "pystr option"
  rec_used_base_eid :: "pystr option"
  rec_used_eclaims_eid :: "pystr option"
  ppe_end_t :: "real option"
  ni_t :: "real option"
  cfo_t :: "real option"
  ta_t :: "real option"
  d_rev :: "real option"
  d_ar :: "real option"

record MissingLog =
  ml_edinet_code :: pystr
  ml_fiscal_year :: "int option"
  ml_tsv_path :: pystr
  missing_reason :: pystr

record DuplicateLog =
  dl_edinet_code :: pystr
  dl_fiscal_year :: int
  chosen_tsv :: pystr
  chosen_submit_datetime :: "pystr option"
  skipped_tsv :: pystr
  skipped_reason :: pystr

record RecDebugLog =
  rd_edinet_code :: pystr
  rd_fiscal_year :: "int option"
  rd_tsv_path :: pystr
  rd_is_consolidated :: "bool option"
  rd_rec_rule :: "pystr option"
  rec_base_end_t :: "real option"
  rec_base_end_t1 :: "real option"
  rec_eclaims_end_t :: "real option"
  rec_eclaims_end_t1 :: "real option"
  rec_plus_e_end_t :: "real option"
  rec_plus_e_end_t1 :: "real option"
  rec_used_base_eid_end_t :: "pystr option"
  rec_used_base_eid_end_t1 :: "pystr option"
  rec_used_eclaims_eid_end_t :: "pystr option"
  rec_used_eclaims_eid_end_t1 :: "pystr option"

section \<open>Receivables Synthesizer and Company-Year Extractor\<close>

text \<open>\<open>eclaims or 0\<close> and \<open>eid or ""\<close>: Python's \<open>or\<close> on a falsy left operand.\<close>

definition or_zero :: "real option \<Rightarrow> real" where
  "or_zero e = (case e of None \<Rightarrow> 0 | Some x \<Rightarrow> if x = 0 then 0 else x)"

definition or_empty :: "pystr option \<Rightarrow> pystr" where
  "or_empty e = (case e of None \<Rightarrow> [] | Some x \<Rightarrow> if x = [] then [] else x)"

definition add_eclaims :: "real option \<Rightarrow> real option \<Rightarrow> real option" where
  "add_eclaims base eclaims =
     (case base of None \<Rightarrow> None | Some b \<Rightarrow> Some (b + or_zero eclaims))"

text \<open>
  A derived metric: the field keeps its default \<open>None\<close> unless both operands
  are not \<open>None\<close>, and is their difference then.
\<close>

definition difference :: "real option \<Rightarrow> real option \<Rightarrow> real option" where
  "difference a b =
     (case a of None \<Rightarrow> None
      | Some x \<Rightarrow> (case b of None \<Rightarrow> None | Some y \<Rightarrow> Some (x - y)))"

definition PLUS_E :: pystr where "PLUS_E = ascii ''PLUS_E''"
definition NO_BASE :: pystr where "NO_BASE = ascii ''NO_BASE''"

text \<open>One entry of \<open>missing_reasons\<close>, appended when the field is \<open>None\<close>.\<close>

definition missing_if :: "real option \<Rightarrow> pystr \<Rightarrow> pystr list" where
  "missing_if v reason = (if v = None then [reason] else [])"

definition scope_reason :: "string \<Rightarrow> pystr \<Rightarrow> pystr \<Rightarrow> pystr" where
  "scope_reason head rel_year consolidated_type =
     ascii head @ rel_year @ ascii '' '' @ consolidated_type @ ascii '')''"

text \<open>
  \<open>extract_mj_data_from_tsv\<close>. Reading the file is the parameter \<open>read_tsv\<close>,
  \<open>Inl e\<close> where it raises an exception with message \<open>e\<close>.
\<close>

definition extract_mj_data_from_tsv ::
  "(pypath \<Rightarrow> pystr + dataframe) \<Rightarrow> (pystr \<Rightarrow> real option) \<Rightarrow> pypath \<Rightarrow> TSVMetadata \<Rightarrow> company_info
     \<Rightarrow> MJInput option \<times> pystr list \<times> RecDebugLog option" where
  "extract_mj_data_from_tsv read_tsv fl tsv_path meta info =
     (case read_tsv tsv_path of
        Inl e \<Rightarrow> (None, [ascii ''TSV read error: '' @ e], None)
      | Inr df \<Rightarrow>
          (let has_consolidated = check_has_consolidated_data df (Some ELEMENT_NET_SALES);
               consolidated_type = (if has_consolidated then RENKETSU else KOBETSU);
               is_consolidated = (if has_consolidated then True else False);
               v_rev_t = extract_value_with_fallback fl df ELEMENT_NET_SALES TOUKI KIKAN consolidated_type;
               v_rev_t1 = extract_value_with_fallback fl df ELEMENT_NET_SALES ZENKI KIKAN consolidated_type;
               v_ni_t = extract_value_with_fallback fl df ELEMENT_PROFIT_LOSS TOUKI KIKAN consolidated_type;
               v_cfo_t = extract_value_with_fallback fl df ELEMENT_OPERATING_CF TOUKI KIKAN consolidated_type;
               v_assets_prev_end =
                 extract_value_with_fallback fl df ELEMENT_ASSETS ZENKIMATSU JITEN consolidated_type;
               rec_base = extract_value_with_fallback_and_eid fl df ELEMENT_REC_BASE TOUKIMATSU JITEN consolidated_type;
               rec_eclaims = extract_value_with_fallback_and_eid fl df ELEMENT_ECLAIMS TOUKIMATSU JITEN consolidated_type;
               rec_base1 = extract_value_with_fallback_and_eid fl df ELEMENT_REC_BASE ZENKIMATSU JITEN consolidated_type;
               rec_eclaims1 = extract_value_with_fallback_and_eid fl df ELEMENT_ECLAIMS ZENKIMATSU JITEN consolidated_type;
               rec_base_t = fst rec_base; rec_base_eid_t = snd rec_base;
               rec_eclaims_t = fst rec_eclaims; rec_eclaims_eid_t = snd rec_eclaims;
               rec_base_t1 = fst rec_base1; rec_base_eid_t1 = snd rec_base1;
               rec_eclaims_t1 = fst rec_eclaims1; rec_eclaims_eid_t1 = snd rec_eclaims1;
               v_ar_end_t = add_eclaims rec_base_t rec_eclaims_t;
               v_ar_end_t1 = add_eclaims rec_base_t1 rec_eclaims_t1;
               v_rec_rule = (if rec_base_t \<noteq> None then PLUS_E else NO_BASE);
               v_ppe_end_t = extract_value_with_fallback fl df ELEMENT_PPE TOUKIMATSU JITEN consolidated_type;
               v_ta_t = difference v_ni_t v_cfo_t;
               v_d_rev = difference v_rev_t v_rev_t1;
               v_d_ar = difference v_ar_end_t v_ar_end_t1;
               missing_reasons =
                 missing_if v_rev_t (scope_reason ''rev_t (NetSales '' TOUKI consolidated_type)
                 @ missing_if v_rev_t1 (scope_reason ''rev_t1 (NetSales '' ZENKI consolidated_type)
                 @ missing_if v_ni_t (scope_reason ''ni_t (ProfitLoss '' TOUKI consolidated_type)
                 @ missing_if v_cfo_t (scope_reason ''cfo_t (OperatingCF '' TOUKI consolidated_type)
                 @ missing_if v_assets_prev_end
                     (scope_reason ''assets_prev_end (Assets '' ZENKIMATSU consolidated_type)
                 @ missing_if v_ar_end_t (scope_reason ''ar_end_t (REC base '' TOUKIMATSU consolidated_type)
                 @ missing_if v_ar_end_t1 (scope_reason ''ar_end_t1 (REC base '' ZENKIMATSU consolidated_type)
                 @ missing_if v_ppe_end_t (scope_reason ''ppe_end_t (PPE '' TOUKIMATSU consolidated_type)
                 @ missing_if v_ta_t (ascii ''ta_t (ni_t - cfo_t)'')
                 @ missing_if v_d_rev (ascii ''d_rev (rev_t - rev_t1)'')
                 @ missing_if v_d_ar (ascii ''d_ar (ar_end_t - ar_end_t1)'');
               mj = \<lparr> mj_edinet_code = meta_edinet_code meta,
                      sec_code = ci_sec_code info,
                      company_name = ci_company_name info,
                      industry = ci_industry info,
                      market = ci_market info,
                      mj_fiscal_year = meta_fiscal_year meta,
                      period_end = fiscal_year_end meta,
                      mj_submit_datetime = meta_submit_datetime meta,
                      mj_doc_id = meta_doc_id meta,
                      mj_tsv_path = Some (path_str tsv_path),
                      mj_is_consolidated = Some is_consolidated,
                      assets_prev_end = v_assets_prev_end,
                      rev_t = v_rev_t,
                      rev_t1 = v_rev_t1,
                      ar_end_t = v_ar_end_t,
                      ar_end_t1 = v_ar_end_t1,
                      ar_end_t_no_e = rec_base_t,
                      ar_end_t1_no_e = rec_base_t1,
                      eclaims_end_t = rec_eclaims_t,
                      eclaims_end_t1 = rec_eclaims_t1,
                      mj_rec_rule = Some v_rec_rule,
                      rec_used_base_eid = Some (or_empty rec_base_eid_t),
                      rec_used_eclaims_eid = Some (or_empty rec_eclaims_eid_t),
                      ppe_end_t = v_ppe_end_t,
                      ni_t = v_ni_t,
                      cfo_t = v_cfo_t,
                      ta_t = v_ta_t,
                      d_rev = v_d_rev,
                      d_ar = v_d_ar \<rparr>;
               rec_debug = \<lparr> rd_edinet_code = meta_edinet_code meta,
                             rd_fiscal_year = meta_fiscal_year meta,
                             rd_tsv_path = path_str tsv_path,
                             rd_is_consolidated = Some is_consolidated,
                             rd_rec_rule = Some v_rec_rule,
                             rec_base_end_t = rec_base_t,
                             rec_base_end_t1 = rec_base_t1,
                             rec_eclaims_end_t = rec_eclaims_t,
                             rec_eclaims_end_t1 = rec_eclaims_t1,
                             rec_plus_e_end_t = v_ar_end_t,
                             rec_plus_e_end_t1 = v_ar_end_t1,
                             rec_used_base_eid_end_t = Some (or_empty rec_base_eid_t),
                             rec_used_base_eid_end_t1 = Some (or_empty rec_base_eid_t1),
                             rec_used_eclaims_eid_end_t = Some (or_empty rec_eclaims_eid_t),
                             rec_used_eclaims_eid_end_t1 = Some (or_empty rec_eclaims_eid_t1) \<rparr>
           in (Some mj, missing_reasons, Some rec_debug)))"

section \<open>Filing Selector\<close>

text \<open>
  \<open>list.sort(key=..., reverse=True)\<close> is stable: elements with equal keys keep
  their order. It is the reverse of the stable ascending sort of the reversed list.
\<close>

definition py_sort_reverse :: "('a \<Rightarrow> 'k::linorder) \<Rightarrow> 'a list \<Rightarrow> 'a list" where
  "py_sort_reverse key xs = rev (sort_key key (rev xs))"

text \<open>
  The pair \<open>(m, m.submit_datetime or "")\<close> of \<open>metas_with_dt\<close>, and the sort
  key of \<open>select_best_tsv\<close> on such pairs. Tuples and strings compare
  lexicographically.
\<close>

definition with_dt :: "TSVMetadata \<Rightarrow> TSVMetadata \<times> pystr" where
  "with_dt m = (m, or_empty (meta_submit_datetime m))"

definition dt_key :: "TSVMetadata \<times> pystr \<Rightarrow> pystr \<times> pystr" where
  "dt_key x = (snd x, path_str (meta_tsv_path (fst x)))"

definition DUPLICATE_SKIPPED :: pystr where
  "DUPLICATE_SKIPPED = ascii ''duplicate_skipped: newer submit_datetime or filename chosen''"

definition select_best_tsv ::
  "TSVMetadata list \<Rightarrow> pystr \<Rightarrow> int \<Rightarrow> TSVMetadata option \<times> DuplicateLog list" where
  "select_best_tsv metas edinet_code fiscal_year =
     (case metas of
        [] \<Rightarrow> (None, [])
      | [m] \<Rightarrow> (Some m, [])
      | m # m' # ms \<Rightarrow>
          (let metas_with_dt = map with_dt metas;
               sorted_metas = py_sort_reverse dt_key metas_with_dt;
               chosen = fst (hd sorted_metas)
           in (Some chosen,
               map (\<lambda>x. \<lparr> dl_edinet_code = edinet_code,
                           dl_fiscal_year = fiscal_year,
                           chosen_tsv = path_name (meta_tsv_path chosen),
                           chosen_submit_datetime = meta_submit_datetime chosen,
                           skipped_tsv = path_name (meta_tsv_path (fst x)),
                           skipped_reason = DUPLICATE_SKIPPED \<rparr>)
                   (tl sorted_metas))))"

section \<open>Corpus Driver\<close>

definition FISCAL_YEAR_MIN :: int where "FISCAL_YEAR_MIN = 2015"
definition FISCAL_YEAR_MAX :: int where "FISCAL_YEAR_MAX = 2024"

text \<open>The four lists one company's processing fills.\<close>

record company_result =
  mj_inputs :: "MJInput list"
  missing_logs :: "MissingLog list"
  duplicate_logs :: "DuplicateLog list"
  rec_debug_logs :: "RecDebugLog list"

definition empty_result :: company_result where
  "empty_result = \<lparr> mj_inputs = [], missing_logs = [], duplicate_logs = [], rec_debug_logs = [] \<rparr>"

text \<open>The dictionary \<open>by_year\<close>, filled in the order of the scanned filings.\<close>

definition group_step ::
  "(int option \<rightharpoonup> TSVMetadata list) \<Rightarrow> TSVMetadata \<Rightarrow> (int option \<rightharpoonup> TSVMetadata list)" where
  "group_step by_year m =
     (case by_year (meta_fiscal_year m) of
        None \<Rightarrow> by_year(meta_fiscal_year m \<mapsto> [m])
      | Some ms \<Rightarrow> by_year(meta_fiscal_year m \<mapsto> ms @ [m]))"

definition group_by_year :: "TSVMetadata list \<Rightarrow> (int option \<rightharpoonup> TSVMetadata list)" where
  "group_by_year metas = foldl group_step Map.empty metas"

definition year_metas_of :: "(int option \<rightharpoonup> TSVMetadata list) \<Rightarrow> int \<Rightarrow> TSVMetadata list" where
  "year_metas_of by_year fy = (case by_year (Some fy) of None \<Rightarrow> [] | Some ms \<Rightarrow> ms)"

text \<open>\<open>"; ".join(missing_reasons)\<close>.\<close>

fun py_join :: "pystr \<Rightarrow> pystr list \<Rightarrow> pystr" where
  "py_join sep [] = []"
| "py_join sep [x] = x"
| "py_join sep (x # y # ys) = x @ sep @ py_join sep (y # ys)"

definition no_tsv_reason :: "(int \<rightharpoonup> pystr) \<Rightarrow> int \<Rightarrow> pystr" where
  "no_tsv_reason non_japan_gaap_by_year fy =
     (case non_japan_gaap_by_year fy of
        Some std \<Rightarrow> ascii ''accounting_standard: '' @ std
      | None \<Rightarrow> ascii ''no_tsv_found_for_year'')"

text \<open>
  The body of the loop over the fiscal years, on the lists filled so far. The call of
  the extractor is the parameter \<open>extract\<close>; \<open>Inl e\<close> is an exception that
  leaves the body. \<open>extract_mj_data_from_tsv\<close> catches what reading and resolving
  raise, so with it the body always completes; the parameter stands for what can still
  escape a year (an out-of-memory error, say).
\<close>

definition process_year ::
  "(TSVMetadata \<Rightarrow> pystr + (MJInput option \<times> pystr list \<times> RecDebugLog option))
     \<Rightarrow> pystr \<Rightarrow> (int option \<rightharpoonup> TSVMetadata list) \<Rightarrow> (int \<rightharpoonup> pystr) \<Rightarrow> int
     \<Rightarrow> company_result \<Rightarrow> pystr + company_result" where
  "process_year extract edinet_code by_year non_japan_gaap_by_year fy acc =
     (let year_metas = year_metas_of by_year fy in
      if year_metas = [] then
        Inr (acc\<lparr> missing_logs := missing_logs acc @
               [\<lparr> ml_edinet_code = edinet_code, ml_fiscal_year = Some fy, ml_tsv_path = [],
                  missing_reason = no_tsv_reason non_japan_gaap_by_year fy \<rparr>] \<rparr>)
      else
        (let sel = select_best_tsv year_metas edinet_code fy;
             acc1 = acc\<lparr> duplicate_logs := duplicate_logs acc @ snd sel \<rparr>
         in case fst sel of
              None \<Rightarrow> Inr acc1
            | Some chosen_meta \<Rightarrow>
                (case extract chosen_meta of
                   Inl e \<Rightarrow> Inl e
                 | Inr (mj, missing_reasons, rec_debug) \<Rightarrow>
                     (let acc2 = (case rec_debug of
                                    None \<Rightarrow> acc1
                                  | Some rd \<Rightarrow> acc1\<lparr> rec_debug_logs := rec_debug_logs acc1 @ [rd] \<rparr>);
                          log = \<lparr> ml_edinet_code = edinet_code, ml_fiscal_year = Some fy,
                                  ml_tsv_path = path_str (meta_tsv_path chosen_meta),
                                  missing_reason = py_join (ascii ''; '') missing_reasons \<rparr>
                      in case mj of
                           None \<Rightarrow>
                             (if missing_reasons \<noteq> []
                              then Inr (acc2\<lparr> missing_logs := missing_logs acc2 @ [log] \<rparr>)
                              else Inr acc2)
                         | Some rec \<Rightarrow>
                             (if missing_reasons \<noteq> []
                              then Inr (acc2\<lparr> missing_logs := missing_logs acc2 @ [log] \<rparr>)
                              else Inr (acc2\<lparr> mj_inputs := mj_inputs acc2 @ [rec] \<rparr>))))))"

fun process_years ::
  "(TSVMetadata \<Rightarrow> pystr + (MJInput option \<times> pystr list \<times> RecDebugLog option))
     \<Rightarrow> pystr \<Rightarrow> (int option \<rightharpoonup> TSVMetadata list) \<Rightarrow> (int \<rightharpoonup> pystr) \<Rightarrow> int list
     \<Rightarrow> company_result \<Rightarrow> pystr + company_result" where
  "process_years extract edinet_code by_year non_japan [] acc = Inr acc"
| "process_years extract edinet_code by_year non_japan (fy # fys) acc =
     (case process_year extract edinet_code by_year non_japan fy acc of
        Inl e \<Rightarrow> Inl e
      | Inr acc' \<Rightarrow> process_years extract edinet_code by_year non_japan fys acc')"

text \<open>
  \<open>process_company\<close> after the directory scan, whose result (the eligible filings
  and the wrong-standard years) is an input. The lists are returned by the final
  \<open>return\<close> only: an exception hands the caller nothing but itself.
\<close>

definition process_company_with ::
  "(TSVMetadata \<Rightarrow> pystr + (MJInput option \<times> pystr list \<times> RecDebugLog option))
     \<Rightarrow> pystr \<Rightarrow> TSVMetadata list \<Rightarrow> (int \<rightharpoonup> pystr) \<Rightarrow> pystr + company_result" where
  "process_company_with extract edinet_code metas non_japan_gaap_by_year =
     process_years extract edinet_code (group_by_year metas) non_japan_gaap_by_year
       [FISCAL_YEAR_MIN..FISCAL_YEAR_MAX] empty_result"

definition process_company ::
  "(pypath \<Rightarrow> pystr + dataframe) \<Rightarrow> (pystr \<Rightarrow> real option) \<Rightarrow> pystr \<Rightarrow> company_info
     \<Rightarrow> TSVMetadata list \<Rightarrow> (int \<rightharpoonup> pystr) \<Rightarrow> pystr + company_result" where
  "process_company read_tsv fl edinet_code info metas non_japan_gaap_by_year =
     process_company_with
       (\<lambda>chosen_meta. Inr (extract_mj_data_from_tsv read_tsv fl (meta_tsv_path chosen_meta) chosen_meta info))
       edinet_code metas non_japan_gaap_by_year"

text \<open>
  The loop of \<open>main\<close> over the completed futures, in their order of completion: a
  future holds its company's code and either the four lists or the exception
  \<open>process_company\<close> raised. The state is the four aggregated lists and the
  warnings issued.
\<close>

definition collect_one ::
  "company_result \<times> pystr list \<Rightarrow> pystr \<times> (pystr + company_result) \<Rightarrow> company_result \<times> pystr list" where
  "collect_one st fut =
     (case snd fut of
        Inr r \<Rightarrow>
          (\<lparr> mj_inputs = mj_inputs (fst st) @ mj_inputs r,
             missing_logs = missing_logs (fst st) @ missing_logs r,
             duplicate_logs = duplicate_logs (fst st) @ duplicate_logs r,
             rec_debug_logs = rec_debug_logs (fst st) @ rec_debug_logs r \<rparr>, snd st)
      | Inl e \<Rightarrow>
          (fst st, snd st @ [ascii ''Error processing '' @ fst fut @ ascii '': '' @ e]))"

definition collect_results ::
  "(pystr \<times> (pystr + company_result)) list \<Rightarrow> company_result \<times> pystr list" where
  "collect_results futures = foldl collect_one (empty_result, []) futures"

section \<open>The rows of one scope\<close>

text \<open>
  The table cut down to the rows whose scope cell is \<open>cons\<close>; it serves to state
  that a resolution in one scope reads no row of another.
\<close>

definition restrict_scope :: "pystr \<Rightarrow> dataframe \<Rightarrow> dataframe" where
  "restrict_scope cons df = df\<lparr> df_rows := filter (\<lambda>r. consolidated r = Some cons) (df_rows df) \<rparr>"

section \<open>An example filing\<close>

text \<open>
  One consolidated filing of fiscal year 2015, all values in yen: net sales 1000
  (prior 800), net income 50, operating cash flow 70, prior-period-end assets 900,
  receivables 120 (prior 100), electronically recorded claims 15 at the current period
  end only, property, plant and equipment 300.
\<close>

definition example_row :: "string \<Rightarrow> pystr \<Rightarrow> pystr \<Rightarrow> string \<Rightarrow> string \<Rightarrow> fact_row" where
  "example_row tag rel_year ptype ctx v =
     \<lparr> element_id = Some (JPPFS_PREFIX @ ascii tag), relative_year = Some rel_year,
       period_type = Some ptype, consolidated = Some RENKETSU, context_id = Some (ascii ctx),
       value_text = Some (ascii v), unit_text = Some YEN \<rparr>"

definition ALL_COLUMNS :: "col list" where
  "ALL_COLUMNS = [COL_ELEMENT_ID, COL_VALUE, COL_RELATIVE_YEAR, COL_PERIOD_TYPE,
                  COL_CONSOLIDATED, COL_CONTEXT_ID, COL_UNIT]"

definition example_df :: dataframe where
  "example_df =
     \<lparr> df_columns = ALL_COLUMNS,
       df_rows =
         [example_row ''NetSales'' TOUKI KIKAN ''CurrentYearDuration'' ''1000'',
          example_row ''NetSales'' ZENKI KIKAN ''Prior1YearDuration'' ''800'',
          example_row ''ProfitLoss'' TOUKI KIKAN ''CurrentYearDuration'' ''50'',
          example_row ''NetCashProvidedByUsedInOperatingActivities'' TOUKI KIKAN
            ''CurrentYearDuration'' ''70'',
          example_row ''Assets'' ZENKIMATSU JITEN ''Prior1YearInstant'' ''900'',
          example_row ''NotesAndAccountsReceivableTrade'' TOUKIMATSU JITEN ''CurrentYearInstant'' ''120'',
          example_row ''NotesAndAccountsReceivableTrade'' ZENKIMATSU JITEN ''Prior1YearInstant'' ''100'',
          example_row ''ElectronicallyRecordedMonetaryClaimsOperatingCA'' TOUKIMATSU JITEN
            ''CurrentYearInstant'' ''15'',
          example_row ''PropertyPlantAndEquipment'' TOUKIMATSU JITEN ''CurrentYearInstant'' ''300''] \<rparr>"

definition example_path :: pypath where
  "example_path = \<lparr> path_str = ascii ''annual/E00001/S100AAAA.tsv'', path_name = ascii ''S100AAAA.tsv'' \<rparr>"

definition example_meta :: TSVMetadata where
  "example_meta =
     \<lparr> meta_tsv_path = example_path, meta_edinet_code = ascii ''E00001'',
       accounting_standard = Some (ascii ''Japan GAAP''), meta_fiscal_year = Some 2015,
       fiscal_year_start = Some (ascii ''2015-04-01''), fiscal_year_end = Some (ascii ''2016-03-31''),
       meta_submit_datetime = Some (ascii ''2016-06-24''), meta_doc_id = Some (ascii ''S100AAAA''),
       has_ifrs_us_gaap = False \<rparr>"

text \<open>An amended filing of the same year, submitted later.\<close>

definition example_amended :: TSVMetadata where
  "example_amended =
     example_meta\<lparr> meta_tsv_path := \<lparr> path_str = ascii ''annual/E00001/S100BBBB.tsv'',
                                        path_name = ascii ''S100BBBB.tsv'' \<rparr>,
                   meta_submit_datetime := Some (ascii ''2016-08-01''),
                   meta_doc_id := Some (ascii ''S100BBBB'') \<rparr>"

text \<open>
  The filing of the next fiscal year, and an extractor call that fails on it with an
  exception nothing inside the year's body catches.
\<close>

definition example_2016 :: TSVMetadata where
  "example_2016 =
     example_meta\<lparr> meta_tsv_path := \<lparr> path_str = ascii ''annual/E00001/S100CCCC.tsv'',
                                        path_name = ascii ''S100CCCC.tsv'' \<rparr>,
                   meta_fiscal_year := Some 2016,
                   meta_doc_id := Some (ascii ''S100CCCC'') \<rparr>"

definition example_info :: company_info where
  "example_info = \<lparr> ci_sec_code = Some (ascii ''10010''), ci_company_name = None,
                     ci_industry = None, ci_market = None \<rparr>"

definition example_read :: "pypath \<Rightarrow> pystr + dataframe" where
  "example_read p = (if p = example_path then Inr example_df else Inl (ascii ''No such file''))"

definition example_faulty_extract ::
  "TSVMetadata \<Rightarrow> pystr + (MJInput option \<times> pystr list \<times> RecDebugLog option)" where
  "example_faulty_extract m =
     (if meta_fiscal_year m = Some 2016 then Inl (ascii ''MemoryError'')
      else Inr (extract_mj_data_from_tsv example_read float_dec (meta_tsv_path m) m example_info))"

text \<open>
  A table whose only row matches the net-sales tag for the current period in the
  consolidated scope and carries the value 5, with a null context cell (an empty
  field of the file).
\<close>

definition null_context_df :: dataframe where
  "null_context_df =
     \<lparr> df_columns = ALL_COLUMNS,
       df_rows =
         [\<lparr> element_id = Some (JPPFS_PREFIX @ ascii ''NetSales''), relative_year = Some TOUKI,
            period_type = Some KIKAN, consolidated = Some RENKETSU, context_id = None,
            value_text = Some (ascii ''5''), unit_text = Some YEN \<rparr>] \<rparr>"

text \<open>What the extractor returns for the example filing.\<close>

definition example_mj :: MJInput where
  "example_mj =
     \<lparr> mj_edinet_code = ascii ''E00001'', sec_code = Some (ascii ''10010''), company_name = None,
       industry = None, market = None, mj_fiscal_year = Some 2015,
       period_end = Some (ascii ''2016-03-31''),
       mj_submit_datetime = Some (ascii ''2016-06-24''),
       mj_doc_id = Some (ascii ''S100AAAA''),
       mj_tsv_path = Some (ascii ''annual/E00001/S100AAAA.tsv''),
       mj_is_consolidated = Some True, assets_prev_end = Some 900,
       rev_t = Some 1000, rev_t1 = Some 800, ar_end_t = Some 135,
       ar_end_t1 = Some 100, ar_end_t_no_e = Some 120,
       ar_end_t1_no_e = Some 100, eclaims_end_t = Some 15,
       eclaims_end_t1 = None, mj_rec_rule = Some PLUS_E,
       rec_used_base_eid = Some (ascii ''NotesAndAccountsReceivableTrade''),
       rec_used_eclaims_eid = Some (ascii ''ElectronicallyRecordedMonetaryClaimsOperatingCA''),
       ppe_end_t = Some 300, ni_t = Some 50, cfo_t = Some 70,
       ta_t = Some (- 20), d_rev = Some 200, d_ar = Some 35 \<rparr>"

definition example_debug :: RecDebugLog where
  "example_debug =
     \<lparr> rd_edinet_code = ascii ''E00001'', rd_fiscal_year = Some 2015,
       rd_tsv_path = ascii ''annual/E00001/S100AAAA.tsv'',
       rd_is_consolidated = Some True,
       rd_rec_rule = Some PLUS_E,
       rec_base_end_t = Some 120, rec_base_end_t1 = Some 100,
       rec_eclaims_end_t = Some 15, rec_eclaims_end_t1 = None,
       rec_plus_e_end_t = Some 135, rec_plus_e_end_t1 = Some 100,
       rec_used_base_eid_end_t = Some (ascii ''NotesAndAccountsReceivableTrade''),
       rec_used_base_eid_end_t1 = Some (ascii ''NotesAndAccountsReceivableTrade''),
       rec_used_eclaims_eid_end_t = Some (ascii ''ElectronicallyRecordedMonetaryClaimsOperatingCA''),
       rec_used_eclaims_eid_end_t1 = Some [] \<rparr>"

section \<open>Properties of the Value Normalizer\<close>

lemmas str_defs = ascii_def YEN_def SEN_YEN_def HYAKUMAN_YEN_def OKU_YEN_def TOUKI_def ZENKI_def
  TOUKIMATSU_def ZENKIMATSU_def KIKAN_def JITEN_def RENKETSU_def KOBETSU_def JPPFS_PREFIX_def
  MEMBER_def NON_CONSOLIDATED_MEMBER_def CONSOLIDATED_MEMBER_def

lemmas norm_defs = normalize_value_def py_strip_def py_rstrip_def py_isspace_def
  MISSING_PATTERNS_def remove_commas_def startswith_def endswith_def float_dec_def unsigned_dec_def
  is_digit_def digits_val_def unit_multiplier_def UNIT_MAP_def SANKAKU_WHITE_def SANKAKU_BLACK_def
  Let_def

lemma py_strip_parens: "py_strip (40 # s @ [41]) = 40 # s @ [41]"
  by (simp add: py_strip_def py_rstrip_def py_isspace_def)

lemma py_strip_glyph: "\<not> py_isspace g \<Longrightarrow> py_strip (g # s) = g # py_rstrip s"
  by (simp add: py_strip_def py_rstrip_def dropWhile_append3)

lemma unit_multiplier_table:
  "unit_multiplier u =
     (if u = Some YEN then 1 else if u = Some SEN_YEN then 1000
      else if u = Some HYAKUMAN_YEN then 1000000 else if u = Some OKU_YEN then 100000000 else 1)"
  by (cases u) (auto simp: unit_multiplier_def UNIT_MAP_def YEN_def SEN_YEN_def HYAKUMAN_YEN_def
      OKU_YEN_def ascii_def)

lemma normalize_parens:
  "normalize_value fl (Some (40 # s @ [41])) u =
     map_option (\<lambda>v. - v * of_int (unit_multiplier u)) (fl (remove_commas s))"
proof -
  have m: "40 # s @ [41] \<notin> set MISSING_PATTERNS"
    by (cases s) (auto simp: MISSING_PATTERNS_def ascii_def)
  have rc: "remove_commas (40 # s @ [41]) = 40 # remove_commas s @ [41]"
    by (simp add: remove_commas_def)
  have sw: "startswith (40 # t @ [41]) [40]" "endswith (40 # t @ [41]) [41]" for t
    by (simp_all add: startswith_def endswith_def)
  show ?thesis
    by (simp add: normalize_value_def py_strip_parens m rc sw Let_def butlast_append
        split: option.splits)
qed

lemma normalize_glyph:
  assumes "g = SANKAKU_WHITE \<or> g = SANKAKU_BLACK"
  shows "normalize_value fl (Some (g # s)) u =
     map_option (\<lambda>v. - v * of_int (unit_multiplier u)) (fl (remove_commas (py_rstrip s)))"
proof -
  have g: "g = 9651 \<or> g = 9650"
    using assms by (simp add: SANKAKU_WHITE_def SANKAKU_BLACK_def)
  then have sp: "\<not> py_isspace g"
    by (auto simp: py_isspace_def)
  have m: "g # t \<notin> set MISSING_PATTERNS" for t
    using g by (auto simp: MISSING_PATTERNS_def ascii_def)
  have rc: "remove_commas (g # t) = g # remove_commas t" for t
    using g by (auto simp: remove_commas_def)
  have sw: "\<not> startswith (g # t) [40]"
    "startswith (g # t) [SANKAKU_WHITE] \<or> startswith (g # t) [SANKAKU_BLACK]" for t
    using g by (auto simp: startswith_def SANKAKU_WHITE_def SANKAKU_BLACK_def)
  show ?thesis
    using sw
    by (simp add: normalize_value_def py_strip_glyph[OF sp] m rc Let_def split: option.splits)
qed

lemma normalize_example_parens:
  "normalize_value float_dec (Some (ascii ''(1,234)'')) (Some SEN_YEN) = Some (- 1234000)"
  by (simp add: norm_defs str_defs)

lemma normalize_example_oku:
  "normalize_value float_dec (Some (ascii ''5'')) (Some OKU_YEN) = Some 500000000"
  by (simp add: norm_defs str_defs)

text \<open>
  C9. A value wrapped in ASCII parentheses, or prefixed by one of the two negative
  glyphs, normalizes to the negation of the number that \<open>float\<close> reads from the
  unwrapped text (commas removed), times the unit factor; it is absent when the
  unwrapped text is not a number. The factor is 1 for the yen, 1000 for thousands,
  1000000 for millions, 100000000 for hundred-millions and 1 for any other unit. So
  \<open>(1,234)\<close> in thousands is -1234000 and \<open>5\<close> in hundred-millions is 500000000.
\<close>

theorem normalize_value_negative_scaled:
  "normalize_value fl (Some (40 # s @ [41])) u =
     map_option (\<lambda>v. - v * of_int (unit_multiplier u)) (fl (remove_commas s)) \<and>
   normalize_value fl (Some (SANKAKU_WHITE # s)) u =
     map_option (\<lambda>v. - v * of_int (unit_multiplier u)) (fl (remove_commas (py_rstrip s))) \<and>
   normalize_value fl (Some (SANKAKU_BLACK # s)) u =
     map_option (\<lambda>v. - v * of_int (unit_multiplier u)) (fl (remove_commas (py_rstrip s))) \<and>
   unit_multiplier u =
     (if u = Some YEN then 1 else if u = Some SEN_YEN then 1000
      else if u = Some HYAKUMAN_YEN then 1000000 else if u = Some OKU_YEN then 100000000 else 1) \<and>
   normalize_value float_dec (Some (ascii ''(1,234)'')) (Some SEN_YEN) = Some (- 1234000) \<and>
   normalize_value float_dec (Some (ascii ''5'')) (Some OKU_YEN) = Some 500000000"
proof (intro conjI)
  show "normalize_value fl (Some (SANKAKU_WHITE # s)) u =
     map_option (\<lambda>v. - v * of_int (unit_multiplier u)) (fl (remove_commas (py_rstrip s)))"
    by (rule normalize_glyph) simp
  show "normalize_value fl (Some (SANKAKU_BLACK # s)) u =
     map_option (\<lambda>v. - v * of_int (unit_multiplier u)) (fl (remove_commas (py_rstrip s)))"
    by (rule normalize_glyph) simp
qed (rule normalize_parens unit_multiplier_table normalize_example_parens normalize_example_oku)+

section \<open>The example filing, evaluated\<close>

lemmas tr_defs = try_element_def filtered_rows_def example_df_def ALL_COLUMNS_def example_row_def
  pl_filter_def match_expr_def segment_expr_def pl_and_def pl_eq_def pl_not_def pl_contains_def
  row_value_def row_unit_def py_max_def List.map_filter_def str_defs norm_defs
  extract_value_with_fallback_def extract_value_with_fallback_and_eid_def

lemma example_rev_t:
  "extract_value_with_fallback float_dec example_df ELEMENT_NET_SALES TOUKI KIKAN RENKETSU = Some 1000"
  by (auto simp: tr_defs ELEMENT_NET_SALES_def)

lemma example_rev_t1:
  "extract_value_with_fallback float_dec example_df ELEMENT_NET_SALES ZENKI KIKAN RENKETSU = Some 800"
  by (auto simp: tr_defs ELEMENT_NET_SALES_def)

lemma example_ni_t:
  "extract_value_with_fallback float_dec example_df ELEMENT_PROFIT_LOSS TOUKI KIKAN RENKETSU = Some 50"
  by (auto simp: tr_defs ELEMENT_PROFIT_LOSS_def)

lemma example_cfo_t:
  "extract_value_with_fallback float_dec example_df ELEMENT_OPERATING_CF TOUKI KIKAN RENKETSU = Some 70"
  by (auto simp: tr_defs ELEMENT_OPERATING_CF_def)

lemma example_assets:
  "extract_value_with_fallback float_dec example_df ELEMENT_ASSETS ZENKIMATSU JITEN RENKETSU = Some 900"
  by (auto simp: tr_defs ELEMENT_ASSETS_def)

lemma example_rec_base_t:
  "extract_value_with_fallback_and_eid float_dec example_df ELEMENT_REC_BASE TOUKIMATSU JITEN RENKETSU
     = (Some 120, Some (ascii ''NotesAndAccountsReceivableTrade''))"
  by (auto simp: tr_defs ELEMENT_REC_BASE_def)

lemma example_rec_base_t1:
  "extract_value_with_fallback_and_eid float_dec example_df ELEMENT_REC_BASE ZENKIMATSU JITEN RENKETSU
     = (Some 100, Some (ascii ''NotesAndAccountsReceivableTrade''))"
  by (auto simp: tr_defs ELEMENT_REC_BASE_def)

lemma example_eclaims_t:
  "extract_value_with_fallback_and_eid float_dec example_df ELEMENT_ECLAIMS TOUKIMATSU JITEN RENKETSU
     = (Some 15, Some (ascii ''ElectronicallyRecordedMonetaryClaimsOperatingCA''))"
  by (auto simp: tr_defs ELEMENT_ECLAIMS_def)

lemma example_eclaims_t1:
  "extract_value_with_fallback_and_eid float_dec example_df ELEMENT_ECLAIMS ZENKIMATSU JITEN RENKETSU
     = (None, None)"
  by (auto simp: tr_defs ELEMENT_ECLAIMS_def)

lemma example_ppe:
  "extract_value_with_fallback float_dec example_df ELEMENT_PPE TOUKIMATSU JITEN RENKETSU = Some 300"
  by (auto simp: tr_defs ELEMENT_PPE_def)

lemma example_consolidated: "check_has_consolidated_data example_df (Some ELEMENT_NET_SALES)"
  by (auto simp: check_has_consolidated_data_def example_df_def ALL_COLUMNS_def example_row_def
      pl_filter_def pl_and_def pl_eq_def str_defs ELEMENT_NET_SALES_def)

lemmas example_resolved = example_rev_t example_rev_t1 example_ni_t example_cfo_t example_assets
  example_rec_base_t example_rec_base_t1 example_eclaims_t example_eclaims_t1 example_ppe
  example_consolidated

lemma example_extract:
  "extract_mj_data_from_tsv example_read float_dec example_path example_meta example_info =
     (Some example_mj, [], Some example_debug)"
  by (simp add: extract_mj_data_from_tsv_def example_read_def Let_def example_resolved
      add_eclaims_def or_zero_def or_empty_def difference_def missing_if_def example_meta_def
      example_info_def example_path_def ascii_def PLUS_E_def example_mj_def example_debug_def)

section \<open>What the extractor returns\<close>

lemma extract_Inl:
  "read_tsv p = Inl e \<Longrightarrow>
     extract_mj_data_from_tsv read_tsv fl p meta info = (None, [ascii ''TSV read error: '' @ e], None)"
  by (simp add: extract_mj_data_from_tsv_def)

lemma extract_Inr_fields:
  fixes fl :: "pystr \<Rightarrow> real option" and meta :: TSVMetadata and info :: company_info
  assumes rd: "read_tsv p = Inr df"
  defines "E \<equiv> extract_mj_data_from_tsv read_tsv fl p meta info"
  defines "ct \<equiv> (if check_has_consolidated_data df (Some ELEMENT_NET_SALES) then RENKETSU else KOBETSU)"
  defines "base \<equiv> extract_value_with_fallback_and_eid fl df ELEMENT_REC_BASE TOUKIMATSU JITEN ct"
  defines "base1 \<equiv> extract_value_with_fallback_and_eid fl df ELEMENT_REC_BASE ZENKIMATSU JITEN ct"
  defines "claims \<equiv> extract_value_with_fallback_and_eid fl df ELEMENT_ECLAIMS TOUKIMATSU JITEN ct"
  defines "claims1 \<equiv> extract_value_with_fallback_and_eid fl df ELEMENT_ECLAIMS ZENKIMATSU JITEN ct"
  shows "fst E \<noteq> None" and "snd (snd E) \<noteq> None"
    and "mj_is_consolidated (the (fst E)) = Some (check_has_consolidated_data df (Some ELEMENT_NET_SALES))"
    and "mj_fiscal_year (the (fst E)) = meta_fiscal_year meta"
    and "rev_t (the (fst E)) = extract_value_with_fallback fl df ELEMENT_NET_SALES TOUKI KIKAN ct"
    and "rev_t1 (the (fst E)) = extract_value_with_fallback fl df ELEMENT_NET_SALES ZENKI KIKAN ct"
    and "ni_t (the (fst E)) = extract_value_with_fallback fl df ELEMENT_PROFIT_LOSS TOUKI KIKAN ct"
    and "cfo_t (the (fst E)) = extract_value_with_fallback fl df ELEMENT_OPERATING_CF TOUKI KIKAN ct"
    and "assets_prev_end (the (fst E)) = extract_value_with_fallback fl df ELEMENT_ASSETS ZENKIMATSU JITEN ct"
    and "ppe_end_t (the (fst E)) = extract_value_with_fallback fl df ELEMENT_PPE TOUKIMATSU JITEN ct"
    and "ar_end_t_no_e (the (fst E)) = fst base"
    and "ar_end_t1_no_e (the (fst E)) = fst base1"
    and "eclaims_end_t (the (fst E)) = fst claims"
    and "eclaims_end_t1 (the (fst E)) = fst claims1"
    and "ar_end_t (the (fst E)) = add_eclaims (fst base) (fst claims)"
    and "ar_end_t1 (the (fst E)) = add_eclaims (fst base1) (fst claims1)"
    and "ta_t (the (fst E)) = difference (ni_t (the (fst E))) (cfo_t (the (fst E)))"
    and "d_rev (the (fst E)) = difference (rev_t (the (fst E))) (rev_t1 (the (fst E)))"
    and "d_ar (the (fst E)) = difference (ar_end_t (the (fst E))) (ar_end_t1 (the (fst E)))"
    and "mj_rec_rule (the (fst E)) = Some (if fst base \<noteq> None then PLUS_E else NO_BASE)"
    and "rec_used_base_eid (the (fst E)) = Some (or_empty (snd base))"
    and "rec_used_eclaims_eid (the (fst E)) = Some (or_empty (snd claims))"
    and "rd_rec_rule (the (snd (snd E))) = Some (if fst base \<noteq> None then PLUS_E else NO_BASE)"
    and "rd_is_consolidated (the (snd (snd E))) = Some (check_has_consolidated_data df (Some ELEMENT_NET_SALES))"
    and "rec_used_base_eid_end_t (the (snd (snd E))) = Some (or_empty (snd base))"
    and "rec_used_base_eid_end_t1 (the (snd (snd E))) = Some (or_empty (snd base1))"
    and "rec_used_eclaims_eid_end_t (the (snd (snd E))) = Some (or_empty (snd claims))"
    and "rec_used_eclaims_eid_end_t1 (the (snd (snd E))) = Some (or_empty (snd claims1))"
    and "fst (snd E) = [] \<longleftrightarrow>
           rev_t (the (fst E)) \<noteq> None \<and> rev_t1 (the (fst E)) \<noteq> None \<and> ni_t (the (fst E)) \<noteq> None \<and>
           cfo_t (the (fst E)) \<noteq> None \<and> assets_prev_end (the (fst E)) \<noteq> None \<and>
           ar_end_t (the (fst E)) \<noteq> None \<and> ar_end_t1 (the (fst E)) \<noteq> None \<and>
           ppe_end_t (the (fst E)) \<noteq> None \<and> ta_t (the (fst E)) \<noteq> None \<and>
           d_rev (the (fst E)) \<noteq> None \<and> d_ar (the (fst E)) \<noteq> None"
  unfolding E_def ct_def base_def base1_def claims_def claims1_def
  by (simp_all add: extract_mj_data_from_tsv_def rd Let_def missing_if_def)

lemma extract_SomeE:
  assumes "extract_mj_data_from_tsv read_tsv fl p meta info = (Some mj, reasons, dbg)"
  obtains df where "read_tsv p = Inr df"
    and "mj = the (fst (extract_mj_data_from_tsv read_tsv fl p meta info))"
    and "reasons = fst (snd (extract_mj_data_from_tsv read_tsv fl p meta info))"
    and "dbg = snd (snd (extract_mj_data_from_tsv read_tsv fl p meta info))"
proof (cases "read_tsv p")
  case (Inl e)
  have "fst (extract_mj_data_from_tsv read_tsv fl p meta info) = None"
    by (simp add: extract_Inl[where read_tsv=read_tsv and p=p, OF Inl])
  moreover have "fst (extract_mj_data_from_tsv read_tsv fl p meta info) = Some mj"
    by (simp only: assms fst_conv)
  ultimately show ?thesis by simp
next
  case (Inr df)
  show ?thesis
    by (rule that[OF Inr]) (simp_all only: assms fst_conv snd_conv option.sel)
qed

section \<open>Properties of the Receivables Synthesizer\<close>

text \<open>
  C3. At each of the two period ends: when the receivables base does not resolve, the
  synthesized value is absent whatever the electronic claims are; when the base
  resolves and the claims do not, the synthesized value is the base; when both
  resolve it is the base plus the claims. A synthesized value is present exactly when
  the base resolved.
\<close>

theorem receivables_synthesis:
  assumes "extract_mj_data_from_tsv read_tsv fl p meta info = (Some mj, reasons, dbg)"
  shows "\<exists>df. read_tsv p = Inr df \<and>
     (let ct = (if check_has_consolidated_data df (Some ELEMENT_NET_SALES) then RENKETSU else KOBETSU);
          base_t = fst (extract_value_with_fallback_and_eid fl df ELEMENT_REC_BASE TOUKIMATSU JITEN ct);
          claims_t = fst (extract_value_with_fallback_and_eid fl df ELEMENT_ECLAIMS TOUKIMATSU JITEN ct);
          base_t1 = fst (extract_value_with_fallback_and_eid fl df ELEMENT_REC_BASE ZENKIMATSU JITEN ct);
          claims_t1 = fst (extract_value_with_fallback_and_eid fl df ELEMENT_ECLAIMS ZENKIMATSU JITEN ct)
      in ar_end_t mj =
           (case base_t of None \<Rightarrow> None
            | Some b \<Rightarrow> (case claims_t of None \<Rightarrow> Some b | Some e \<Rightarrow> Some (b + e))) \<and>
         ar_end_t1 mj =
           (case base_t1 of None \<Rightarrow> None
            | Some b \<Rightarrow> (case claims_t1 of None \<Rightarrow> Some b | Some e \<Rightarrow> Some (b + e))) \<and>
         (ar_end_t mj \<noteq> None \<longleftrightarrow> base_t \<noteq> None) \<and>
         (ar_end_t1 mj \<noteq> None \<longleftrightarrow> base_t1 \<noteq> None) \<and>
         ar_end_t_no_e mj = base_t \<and> ar_end_t1_no_e mj = base_t1 \<and>
         eclaims_end_t mj = claims_t \<and> eclaims_end_t1 mj = claims_t1)"
proof -
  from assms obtain df where rd: "read_tsv p = Inr df"
    and mj: "mj = the (fst (extract_mj_data_from_tsv read_tsv fl p meta info))"
    by (rule extract_SomeE)
  note f = extract_Inr_fields[where read_tsv=read_tsv and p=p and fl=fl and meta=meta and info=info,
      OF rd, folded mj]
  have add: "add_eclaims b c =
      (case b of None \<Rightarrow> None | Some x \<Rightarrow> (case c of None \<Rightarrow> Some x | Some e \<Rightarrow> Some (x + e)))"
    for b c
    by (simp add: add_eclaims_def or_zero_def split: option.splits)
  show ?thesis
    unfolding Let_def
    by (rule exI[of _ df]) (simp add: rd f(11-16) add split: option.splits)
qed

text \<open>The example filing: base 120 and claims 15 now, base 100 and no claims before.\<close>

theorem receivables_synthesis_witness:
  "ar_end_t example_mj = Some (120 + 15) \<and> ar_end_t1 example_mj = Some 100 \<and>
   ar_end_t_no_e example_mj = Some 120 \<and> eclaims_end_t example_mj = Some 15 \<and>
   eclaims_end_t1 example_mj = None"
  using receivables_synthesis[OF example_extract]
  by (simp add: example_mj_def)

section \<open>Derived metrics\<close>

text \<open>
  C4. In every extracted record each of the three derived metrics, \<open>ta_t\<close>,
  \<open>d_rev\<close> and \<open>d_ar\<close>, is present if and only if both of its operands are
  present, and then \<open>ta_t = ni_t - cfo_t\<close>, \<open>d_rev = rev_t - rev_t1\<close> and
  \<open>d_ar = ar_end_t - ar_end_t1\<close>.
\<close>

theorem derived_metrics:
  assumes "extract_mj_data_from_tsv read_tsv fl p meta info = (Some mj, reasons, dbg)"
  shows "(ta_t mj \<noteq> None \<longleftrightarrow> ni_t mj \<noteq> None \<and> cfo_t mj \<noteq> None) \<and>
         (d_rev mj \<noteq> None \<longleftrightarrow> rev_t mj \<noteq> None \<and> rev_t1 mj \<noteq> None) \<and>
         (d_ar mj \<noteq> None \<longleftrightarrow> ar_end_t mj \<noteq> None \<and> ar_end_t1 mj \<noteq> None) \<and>
         (\<forall>a b. ni_t mj = Some a \<and> cfo_t mj = Some b \<longrightarrow> ta_t mj = Some (a - b)) \<and>
         (\<forall>a b. rev_t mj = Some a \<and> rev_t1 mj = Some b \<longrightarrow> d_rev mj = Some (a - b)) \<and>
         (\<forall>a b. ar_end_t mj = Some a \<and> ar_end_t1 mj = Some b \<longrightarrow> d_ar mj = Some (a - b))"
proof -
  from assms obtain df where rd: "read_tsv p = Inr df"
    and mj: "mj = the (fst (extract_mj_data_from_tsv read_tsv fl p meta info))"
    by (rule extract_SomeE)
  note f = extract_Inr_fields[where read_tsv=read_tsv and p=p and fl=fl and meta=meta and info=info,
      OF rd, folded mj]
  show ?thesis
    by (simp add: f(17-19) difference_def split: option.splits)
qed

text \<open>The example filing: accruals -20, sales delta 200, receivables delta 35.\<close>

theorem derived_metrics_witness:
  "ta_t example_mj = Some (50 - 70) \<and> d_rev example_mj = Some (1000 - 800) \<and>
   d_ar example_mj = Some (135 - 100)"
  using derived_metrics[OF example_extract]
  by (simp add: example_mj_def)

section \<open>The loop over the fiscal years\<close>

lemma group_fold:
  "(case foldl group_step d metas k of None \<Rightarrow> [] | Some ms \<Rightarrow> ms) =
     (case d k of None \<Rightarrow> [] | Some ms \<Rightarrow> ms) @ filter (\<lambda>m. meta_fiscal_year m = k) metas"
  by (induction metas arbitrary: d) (auto simp: group_step_def split: option.splits)

lemma year_metas_of_group:
  "year_metas_of (group_by_year metas) fy = filter (\<lambda>m. meta_fiscal_year m = Some fy) metas"
  using group_fold[of Map.empty metas "Some fy"]
  by (simp add: year_metas_of_def group_by_year_def)

lemma py_sort_reverse_set: "set (py_sort_reverse key xs) = set xs"
  by (simp add: py_sort_reverse_def)

lemma py_sort_reverse_Nil: "py_sort_reverse key xs = [] \<longleftrightarrow> xs = []"
  by (metis py_sort_reverse_set set_empty)

lemma select_best_tsv_chosen:
  assumes "select_best_tsv metas code fy = (Some chosen, dups)"
  shows "chosen \<in> set metas"
proof (cases metas)
  case Nil
  with assms show ?thesis by (simp add: select_best_tsv_def)
next
  case (Cons m ms)
  show ?thesis
  proof (cases ms)
    case Nil
    with Cons assms show ?thesis by (simp add: select_best_tsv_def)
  next
    case (Cons m' ms')
    let ?xs = "map with_dt metas"
    have ne: "py_sort_reverse dt_key ?xs \<noteq> []"
      using \<open>metas = m # ms\<close> by (simp add: py_sort_reverse_Nil)
    then have "hd (py_sort_reverse dt_key ?xs) \<in> set ?xs"
      using py_sort_reverse_set[of dt_key ?xs] hd_in_set by blast
    then have "fst (hd (py_sort_reverse dt_key ?xs)) \<in> set metas"
      by (auto simp: with_dt_def)
    moreover have "chosen = fst (hd (py_sort_reverse dt_key ?xs))"
      using assms \<open>metas = m # ms\<close> Cons by (simp add: select_best_tsv_def Let_def)
    ultimately show ?thesis by simp
  qed
qed

lemma select_best_tsv_None: "fst (select_best_tsv metas code fy) = None \<longleftrightarrow> metas = []"
  by (cases metas; cases "tl metas") (auto simp: select_best_tsv_def Let_def)

lemma process_year_Inr:
  assumes ex: "\<And>m. \<exists>r. ex m = Inr r"
  shows "\<exists>acc'. process_year ex code by_year nj fy acc = Inr acc' \<and>
     (\<exists>new logs. mj_inputs acc' = mj_inputs acc @ new \<and> missing_logs acc' = missing_logs acc @ logs \<and>
        (\<forall>rec \<in> set new. \<exists>chosen dbg.
            fst (select_best_tsv (year_metas_of by_year fy) code fy) = Some chosen \<and>
            ex chosen = Inr (Some rec, [], dbg)) \<and>
        (\<forall>chosen mj reasons dbg.
            fst (select_best_tsv (year_metas_of by_year fy) code fy) = Some chosen \<longrightarrow>
            ex chosen = Inr (mj, reasons, dbg) \<longrightarrow>
              (reasons = [] \<longrightarrow> (\<forall>rec. mj = Some rec \<longrightarrow> new = [rec])) \<and>
              (reasons \<noteq> [] \<longrightarrow> new = [] \<and>
                 logs = [\<lparr> ml_edinet_code = code, ml_fiscal_year = Some fy,
                          ml_tsv_path = path_str (meta_tsv_path chosen),
                          missing_reason = py_join (ascii ''; '') reasons \<rparr>])))"
proof (cases "year_metas_of by_year fy = []")
  case True
  then have "fst (select_best_tsv (year_metas_of by_year fy) code fy) = None"
    by (simp add: select_best_tsv_None)
  with True show ?thesis
    by (simp add: process_year_def)
next
  case False
  then obtain chosen where ch: "fst (select_best_tsv (year_metas_of by_year fy) code fy) = Some chosen"
    using select_best_tsv_None[of "year_metas_of by_year fy" code fy] by auto
  obtain mj reasons dbg where e: "ex chosen = Inr (mj, reasons, dbg)"
    using ex[of chosen] by (metis prod_cases3)
  show ?thesis
    using False ch e
    by (cases mj; cases dbg; cases "reasons = []") (simp_all add: process_year_def Let_def)
qed


lemma process_years_Inr:
  assumes ex: "\<And>m. \<exists>r. ex m = Inr r"
  shows "\<exists>res. process_years ex code by_year nj fys acc = Inr res \<and>
     (\<exists>new logs. mj_inputs res = mj_inputs acc @ new \<and> missing_logs res = missing_logs acc @ logs \<and>
        (\<forall>rec \<in> set new. \<exists>fy \<in> set fys. \<exists>chosen dbg.
            fst (select_best_tsv (year_metas_of by_year fy) code fy) = Some chosen \<and>
            ex chosen = Inr (Some rec, [], dbg)) \<and>
        (\<forall>fy \<in> set fys. \<forall>chosen mj reasons dbg.
            fst (select_best_tsv (year_metas_of by_year fy) code fy) = Some chosen \<longrightarrow>
            ex chosen = Inr (mj, reasons, dbg) \<longrightarrow>
              (reasons = [] \<longrightarrow> (\<forall>rec. mj = Some rec \<longrightarrow> rec \<in> set new)) \<and>
              (reasons \<noteq> [] \<longrightarrow>
                 \<lparr> ml_edinet_code = code, ml_fiscal_year = Some fy,
                   ml_tsv_path = path_str (meta_tsv_path chosen),
                   missing_reason = py_join (ascii ''; '') reasons \<rparr> \<in> set logs)))"
proof (induction fys arbitrary: acc)
  case Nil
  show ?case by simp
next
  case (Cons fy fys)
  from process_year_Inr[of ex code by_year nj fy acc, OF ex]
  obtain acc' new logs where step: "process_year ex code by_year nj fy acc = Inr acc'"
    and n: "mj_inputs acc' = mj_inputs acc @ new" and l: "missing_logs acc' = missing_logs acc @ logs"
    and origin: "\<forall>rec \<in> set new. \<exists>chosen dbg.
            fst (select_best_tsv (year_metas_of by_year fy) code fy) = Some chosen \<and>
            ex chosen = Inr (Some rec, [], dbg)"
    and year: "\<forall>chosen mj reasons dbg.
            fst (select_best_tsv (year_metas_of by_year fy) code fy) = Some chosen \<longrightarrow>
            ex chosen = Inr (mj, reasons, dbg) \<longrightarrow>
              (reasons = [] \<longrightarrow> (\<forall>rec. mj = Some rec \<longrightarrow> new = [rec])) \<and>
              (reasons \<noteq> [] \<longrightarrow> new = [] \<and>
                 logs = [\<lparr> ml_edinet_code = code, ml_fiscal_year = Some fy,
                          ml_tsv_path = path_str (meta_tsv_path chosen),
                          missing_reason = py_join (ascii ''; '') reasons \<rparr>])"
    by (elim exE conjE) (rule that)
  from Cons.IH[of acc']
  obtain res new' logs' where rest: "process_years ex code by_year nj fys acc' = Inr res"
    and n': "mj_inputs res = mj_inputs acc' @ new'" and l': "missing_logs res = missing_logs acc' @ logs'"
    and origin': "\<forall>rec \<in> set new'. \<exists>fy \<in> set fys. \<exists>chosen dbg.
            fst (select_best_tsv (year_metas_of by_year fy) code fy) = Some chosen \<and>
            ex chosen = Inr (Some rec, [], dbg)"
    and years': "\<forall>fy \<in> set fys. \<forall>chosen mj reasons dbg.
            fst (select_best_tsv (year_metas_of by_year fy) code fy) = Some chosen \<longrightarrow>
            ex chosen = Inr (mj, reasons, dbg) \<longrightarrow>
              (reasons = [] \<longrightarrow> (\<forall>rec. mj = Some rec \<longrightarrow> rec \<in> set new')) \<and>
              (reasons \<noteq> [] \<longrightarrow>
                 \<lparr> ml_edinet_code = code, ml_fiscal_year = Some fy,
                   ml_tsv_path = path_str (meta_tsv_path chosen),
                   missing_reason = py_join (ascii ''; '') reasons \<rparr> \<in> set logs')"
    by (elim exE conjE) (rule that)
  have run: "process_years ex code by_year nj (fy # fys) acc = Inr res"
    by (simp add: step rest)
  have a: "mj_inputs res = mj_inputs acc @ (new @ new')"
    by (simp add: n n')
  have b: "missing_logs res = missing_logs acc @ (logs @ logs')"
    by (simp add: l l')
  have c: "\<forall>rec \<in> set (new @ new'). \<exists>y \<in> set (fy # fys). \<exists>chosen dbg.
            fst (select_best_tsv (year_metas_of by_year y) code y) = Some chosen \<and>
            ex chosen = Inr (Some rec, [], dbg)"
    using origin origin' by auto
  have d: "\<forall>y \<in> set (fy # fys). \<forall>chosen mj reasons dbg.
            fst (select_best_tsv (year_metas_of by_year y) code y) = Some chosen \<longrightarrow>
            ex chosen = Inr (mj, reasons, dbg) \<longrightarrow>
              (reasons = [] \<longrightarrow> (\<forall>rec. mj = Some rec \<longrightarrow> rec \<in> set (new @ new'))) \<and>
              (reasons \<noteq> [] \<longrightarrow>
                 \<lparr> ml_edinet_code = code, ml_fiscal_year = Some y,
                   ml_tsv_path = path_str (meta_tsv_path chosen),
                   missing_reason = py_join (ascii ''; '') reasons \<rparr> \<in> set (logs @ logs'))"
  proof (intro ballI allI impI)
    fix y chosen mj reasons dbg
    assume y: "y \<in> set (fy # fys)"
      and s: "fst (select_best_tsv (year_metas_of by_year y) code y) = Some chosen"
      and e: "ex chosen = Inr (mj, reasons, dbg)"
    show "(reasons = [] \<longrightarrow> (\<forall>rec. mj = Some rec \<longrightarrow> rec \<in> set (new @ new'))) \<and>
              (reasons \<noteq> [] \<longrightarrow>
                 \<lparr> ml_edinet_code = code, ml_fiscal_year = Some y,
                   ml_tsv_path = path_str (meta_tsv_path chosen),
                   missing_reason = py_join (ascii ''; '') reasons \<rparr> \<in> set (logs @ logs'))"
    proof (cases "y = fy")
      case True
      with year s e show ?thesis by (cases "reasons = []") auto
    next
      case False
      with y have "y \<in> set fys" by simp
      with years' s e show ?thesis by (cases "reasons = []") auto
    qed
  qed
  show ?case
    by (intro exI conjI) (rule run a b c d)+
qed


lemma process_company_records:
  fixes read_tsv :: "pypath \<Rightarrow> pystr + dataframe"
  shows "\<exists>res. process_company read_tsv fl code info metas nj = Inr res \<and>
     (\<forall>rec \<in> set (mj_inputs res). \<exists>fy chosen dbg.
         FISCAL_YEAR_MIN \<le> fy \<and> fy \<le> FISCAL_YEAR_MAX \<and>
         fst (select_best_tsv (year_metas_of (group_by_year metas) fy) code fy) = Some chosen \<and>
         extract_mj_data_from_tsv read_tsv fl (meta_tsv_path chosen) chosen info = (Some rec, [], dbg)) \<and>
     (\<forall>fy chosen mj reasons dbg.
         FISCAL_YEAR_MIN \<le> fy \<and> fy \<le> FISCAL_YEAR_MAX \<longrightarrow>
         fst (select_best_tsv (year_metas_of (group_by_year metas) fy) code fy) = Some chosen \<longrightarrow>
         extract_mj_data_from_tsv read_tsv fl (meta_tsv_path chosen) chosen info = (mj, reasons, dbg) \<longrightarrow>
           (reasons = [] \<longrightarrow> (\<forall>rec. mj = Some rec \<longrightarrow> rec \<in> set (mj_inputs res))) \<and>
           (reasons \<noteq> [] \<longrightarrow>
              \<lparr> ml_edinet_code = code, ml_fiscal_year = Some fy,
                ml_tsv_path = path_str (meta_tsv_path chosen),
                missing_reason = py_join (ascii ''; '') reasons \<rparr> \<in> set (missing_logs res)))"
proof -
  let ?ex = "\<lambda>m. Inr (extract_mj_data_from_tsv read_tsv fl (meta_tsv_path m) m info)
               :: pystr + (MJInput option \<times> pystr list \<times> RecDebugLog option)"
  have tot: "\<exists>r. ?ex m = Inr r" for m by (rule exI) (rule refl)
  from process_years_Inr[of ?ex code "group_by_year metas" nj "[FISCAL_YEAR_MIN..FISCAL_YEAR_MAX]"
      empty_result, OF tot]
  obtain res new logs where run: "process_years ?ex code (group_by_year metas) nj
        [FISCAL_YEAR_MIN..FISCAL_YEAR_MAX] empty_result = Inr res"
    and n: "mj_inputs res = mj_inputs empty_result @ new"
    and l: "missing_logs res = missing_logs empty_result @ logs"
    and origin: "\<forall>rec \<in> set new. \<exists>fy \<in> set [FISCAL_YEAR_MIN..FISCAL_YEAR_MAX]. \<exists>chosen dbg.
            fst (select_best_tsv (year_metas_of (group_by_year metas) fy) code fy) = Some chosen \<and>
            ?ex chosen = Inr (Some rec, [], dbg)"
    and years: "\<forall>fy \<in> set [FISCAL_YEAR_MIN..FISCAL_YEAR_MAX]. \<forall>chosen mj reasons dbg.
            fst (select_best_tsv (year_metas_of (group_by_year metas) fy) code fy) = Some chosen \<longrightarrow>
            ?ex chosen = Inr (mj, reasons, dbg) \<longrightarrow>
              (reasons = [] \<longrightarrow> (\<forall>rec. mj = Some rec \<longrightarrow> rec \<in> set new)) \<and>
              (reasons \<noteq> [] \<longrightarrow>
                 \<lparr> ml_edinet_code = code, ml_fiscal_year = Some fy,
                   ml_tsv_path = path_str (meta_tsv_path chosen),
                   missing_reason = py_join (ascii ''; '') reasons \<rparr> \<in> set logs)"
    by (elim exE conjE) (rule that)
  have n': "mj_inputs res = new" and l': "missing_logs res = logs"
    using n l by (simp_all add: empty_result_def)
  have run': "process_company read_tsv fl code info metas nj = Inr res"
    using run by (simp add: process_company_def process_company_with_def)
  have a: "\<forall>rec \<in> set (mj_inputs res). \<exists>fy chosen dbg.
         FISCAL_YEAR_MIN \<le> fy \<and> fy \<le> FISCAL_YEAR_MAX \<and>
         fst (select_best_tsv (year_metas_of (group_by_year metas) fy) code fy) = Some chosen \<and>
         extract_mj_data_from_tsv read_tsv fl (meta_tsv_path chosen) chosen info = (Some rec, [], dbg)"
    using origin unfolding n' by (simp add: Bex_def)
  have b: "\<forall>fy chosen mj reasons dbg.
         FISCAL_YEAR_MIN \<le> fy \<and> fy \<le> FISCAL_YEAR_MAX \<longrightarrow>
         fst (select_best_tsv (year_metas_of (group_by_year metas) fy) code fy) = Some chosen \<longrightarrow>
         extract_mj_data_from_tsv read_tsv fl (meta_tsv_path chosen) chosen info = (mj, reasons, dbg) \<longrightarrow>
           (reasons = [] \<longrightarrow> (\<forall>rec. mj = Some rec \<longrightarrow> rec \<in> set (mj_inputs res))) \<and>
           (reasons \<noteq> [] \<longrightarrow>
              \<lparr> ml_edinet_code = code, ml_fiscal_year = Some fy,
                ml_tsv_path = path_str (meta_tsv_path chosen),
                missing_reason = py_join (ascii ''; '') reasons \<rparr> \<in> set (missing_logs res))"
    using years unfolding n' l' by (simp add: Ball_def)
  show ?thesis
    by (intro exI conjI) (rule run' a b)+
qed

lemma chosen_fiscal_year:
  assumes "fst (select_best_tsv (year_metas_of (group_by_year metas) fy) code fy) = Some chosen"
  shows "meta_fiscal_year chosen = Some fy" and "chosen \<in> set metas"
proof -
  obtain dups where "select_best_tsv (year_metas_of (group_by_year metas) fy) code fy = (Some chosen, dups)"
    using assms by (cases "select_best_tsv (year_metas_of (group_by_year metas) fy) code fy") simp
  then have "chosen \<in> set (year_metas_of (group_by_year metas) fy)"
    by (rule select_best_tsv_chosen)
  then show "meta_fiscal_year chosen = Some fy" and "chosen \<in> set metas"
    by (simp_all add: year_metas_of_group)
qed

lemma add_eclaims_present: "add_eclaims b c \<noteq> None \<longleftrightarrow> b \<noteq> None"
  by (simp add: add_eclaims_def split: option.splits)

lemma extract_complete:
  assumes "extract_mj_data_from_tsv read_tsv fl p meta info = (mj, [], dbg)"
  shows "\<exists>rec. mj = Some rec \<and> mj_fiscal_year rec = meta_fiscal_year meta \<and>
           rev_t rec \<noteq> None \<and> rev_t1 rec \<noteq> None \<and> ni_t rec \<noteq> None \<and> cfo_t rec \<noteq> None \<and>
           assets_prev_end rec \<noteq> None \<and> ar_end_t rec \<noteq> None \<and> ar_end_t1 rec \<noteq> None \<and>
           ppe_end_t rec \<noteq> None \<and> ta_t rec \<noteq> None \<and> d_rev rec \<noteq> None \<and> d_ar rec \<noteq> None \<and>
           mj_rec_rule rec = Some PLUS_E"
proof (cases "read_tsv p")
  case (Inl e)
  have "fst (snd (extract_mj_data_from_tsv read_tsv fl p meta info)) \<noteq> []"
    by (simp add: extract_Inl[where read_tsv=read_tsv and p=p, OF Inl])
  with assms show ?thesis by simp
next
  case (Inr df)
  note f = extract_Inr_fields[where read_tsv=read_tsv and p=p and fl=fl and meta=meta and info=info,
      OF Inr]
  from f(1) assms obtain rec where mj: "mj = Some rec" by auto
  have rec: "rec = the (fst (extract_mj_data_from_tsv read_tsv fl p meta info))"
    by (simp add: assms mj)
  have r: "fst (snd (extract_mj_data_from_tsv read_tsv fl p meta info)) = []"
    by (simp add: assms)
  note g = f[folded rec]
  from g(29) r have all: "rev_t rec \<noteq> None \<and> rev_t1 rec \<noteq> None \<and> ni_t rec \<noteq> None \<and>
           cfo_t rec \<noteq> None \<and> assets_prev_end rec \<noteq> None \<and>
           ar_end_t rec \<noteq> None \<and> ar_end_t1 rec \<noteq> None \<and>
           ppe_end_t rec \<noteq> None \<and> ta_t rec \<noteq> None \<and>
           d_rev rec \<noteq> None \<and> d_ar rec \<noteq> None"
    by blast
  let ?ct = "if check_has_consolidated_data df (Some ELEMENT_NET_SALES) then RENKETSU else KOBETSU"
  let ?base = "fst (extract_value_with_fallback_and_eid fl df ELEMENT_REC_BASE TOUKIMATSU JITEN ?ct)"
  let ?claims = "fst (extract_value_with_fallback_and_eid fl df ELEMENT_ECLAIMS TOUKIMATSU JITEN ?ct)"
  from all have "ar_end_t rec \<noteq> None" by blast
  then have "add_eclaims ?base ?claims \<noteq> None"
    unfolding g(15) .
  then have "?base \<noteq> None"
    using add_eclaims_present[of ?base ?claims] by blast
  then have "mj_rec_rule rec = Some PLUS_E"
    by (simp add: g(20))
  with all mj g(4) show ?thesis by simp
qed

section \<open>Complete cases\<close>

text \<open>
  C1. For a fiscal year of the range whose filing \<open>chosen\<close> was selected and
  extracted with the reason list \<open>reasons\<close>: the complete-case output holds a
  record of that fiscal year if and only if \<open>reasons\<close> is empty, and it is then
  the extracted record; otherwise the reasons are logged in the Missing-Field Log.
  Every record of the complete-case output has all required fields present: current
  and prior net sales, net income, operating cash flow, prior-period-end total assets,
  both synthesized receivables, property, plant and equipment, and the three derived
  metrics.
\<close>

theorem complete_case_iff_no_missing_reason:
  assumes fy: "FISCAL_YEAR_MIN \<le> fy" "fy \<le> FISCAL_YEAR_MAX"
    and sel: "select_best_tsv (year_metas_of (group_by_year metas) fy) code fy = (Some chosen, dups)"
    and ex: "extract_mj_data_from_tsv read_tsv fl (meta_tsv_path chosen) chosen info = (mj, reasons, dbg)"
  shows "\<exists>res. process_company read_tsv fl code info metas nj = Inr res \<and>
     ((\<exists>rec \<in> set (mj_inputs res). mj_fiscal_year rec = Some fy) \<longleftrightarrow> reasons = []) \<and>
     (reasons = [] \<longrightarrow> (\<exists>rec. mj = Some rec \<and> rec \<in> set (mj_inputs res))) \<and>
     (reasons \<noteq> [] \<longrightarrow>
        \<lparr> ml_edinet_code = code, ml_fiscal_year = Some fy,
          ml_tsv_path = path_str (meta_tsv_path chosen),
          missing_reason = py_join (ascii ''; '') reasons \<rparr> \<in> set (missing_logs res)) \<and>
     (\<forall>rec \<in> set (mj_inputs res).
        rev_t rec \<noteq> None \<and> rev_t1 rec \<noteq> None \<and> ni_t rec \<noteq> None \<and> cfo_t rec \<noteq> None \<and>
        assets_prev_end rec \<noteq> None \<and> ar_end_t rec \<noteq> None \<and> ar_end_t1 rec \<noteq> None \<and>
        ppe_end_t rec \<noteq> None \<and> ta_t rec \<noteq> None \<and> d_rev rec \<noteq> None \<and> d_ar rec \<noteq> None)"
proof -
  from process_company_records[of read_tsv fl code info metas nj]
  obtain res where run: "process_company read_tsv fl code info metas nj = Inr res"
    and origin: "\<forall>rec \<in> set (mj_inputs res). \<exists>fy chosen dbg.
         FISCAL_YEAR_MIN \<le> fy \<and> fy \<le> FISCAL_YEAR_MAX \<and>
         fst (select_best_tsv (year_metas_of (group_by_year metas) fy) code fy) = Some chosen \<and>
         extract_mj_data_from_tsv read_tsv fl (meta_tsv_path chosen) chosen info = (Some rec, [], dbg)"
    and years: "\<forall>fy chosen mj reasons dbg.
         FISCAL_YEAR_MIN \<le> fy \<and> fy \<le> FISCAL_YEAR_MAX \<longrightarrow>
         fst (select_best_tsv (year_metas_of (group_by_year metas) fy) code fy) = Some chosen \<longrightarrow>
         extract_mj_data_from_tsv read_tsv fl (meta_tsv_path chosen) chosen info = (mj, reasons, dbg) \<longrightarrow>
           (reasons = [] \<longrightarrow> (\<forall>rec. mj = Some rec \<longrightarrow> rec \<in> set (mj_inputs res))) \<and>
           (reasons \<noteq> [] \<longrightarrow>
              \<lparr> ml_edinet_code = code, ml_fiscal_year = Some fy,
                ml_tsv_path = path_str (meta_tsv_path chosen),
                missing_reason = py_join (ascii ''; '') reasons \<rparr> \<in> set (missing_logs res))"
    by (elim exE conjE) (rule that)
  have fsel: "fst (select_best_tsv (year_metas_of (group_by_year metas) fy) code fy) = Some chosen"
    by (simp add: sel)
  from years fy fsel ex
  have this_year: "(reasons = [] \<longrightarrow> (\<forall>rec. mj = Some rec \<longrightarrow> rec \<in> set (mj_inputs res))) \<and>
           (reasons \<noteq> [] \<longrightarrow>
              \<lparr> ml_edinet_code = code, ml_fiscal_year = Some fy,
                ml_tsv_path = path_str (meta_tsv_path chosen),
                missing_reason = py_join (ascii ''; '') reasons \<rparr> \<in> set (missing_logs res))"
    by blast
  have complete: "\<exists>rec. mj = Some rec \<and> mj_fiscal_year rec = Some fy \<and> rec \<in> set (mj_inputs res)"
    if "reasons = []"
  proof -
    from ex that have "extract_mj_data_from_tsv read_tsv fl (meta_tsv_path chosen) chosen info = (mj, [], dbg)"
      by simp
    from extract_complete[OF this] obtain rec where "mj = Some rec"
      and "mj_fiscal_year rec = meta_fiscal_year chosen"
      by blast
    with chosen_fiscal_year(1)[OF fsel] this_year that show ?thesis
      by simp
  qed
  have fields: "rev_t rec \<noteq> None \<and> rev_t1 rec \<noteq> None \<and> ni_t rec \<noteq> None \<and> cfo_t rec \<noteq> None \<and>
        assets_prev_end rec \<noteq> None \<and> ar_end_t rec \<noteq> None \<and> ar_end_t1 rec \<noteq> None \<and>
        ppe_end_t rec \<noteq> None \<and> ta_t rec \<noteq> None \<and> d_rev rec \<noteq> None \<and> d_ar rec \<noteq> None"
    and same_year: "mj_fiscal_year rec = Some fy \<Longrightarrow> reasons = []"
    if "rec \<in> set (mj_inputs res)" for rec
  proof -
    from origin that obtain fy' chosen' dbg'
      where s': "fst (select_best_tsv (year_metas_of (group_by_year metas) fy') code fy') = Some chosen'"
        and e': "extract_mj_data_from_tsv read_tsv fl (meta_tsv_path chosen') chosen' info = (Some rec, [], dbg')"
      by blast
    from extract_complete[OF e']
    show "rev_t rec \<noteq> None \<and> rev_t1 rec \<noteq> None \<and> ni_t rec \<noteq> None \<and> cfo_t rec \<noteq> None \<and>
        assets_prev_end rec \<noteq> None \<and> ar_end_t rec \<noteq> None \<and> ar_end_t1 rec \<noteq> None \<and>
        ppe_end_t rec \<noteq> None \<and> ta_t rec \<noteq> None \<and> d_rev rec \<noteq> None \<and> d_ar rec \<noteq> None"
      by simp
    assume "mj_fiscal_year rec = Some fy"
    moreover from extract_complete[OF e'] have "mj_fiscal_year rec = meta_fiscal_year chosen'"
      by simp
    ultimately have "fy' = fy"
      using chosen_fiscal_year(1)[OF s'] by simp
    with s' fsel have "chosen' = chosen" by simp
    with e' ex show "reasons = []" by simp
  qed
  have iff: "(\<exists>rec \<in> set (mj_inputs res). mj_fiscal_year rec = Some fy) \<longleftrightarrow> reasons = []"
    using complete same_year by blast
  have present: "reasons = [] \<longrightarrow> (\<exists>rec. mj = Some rec \<and> rec \<in> set (mj_inputs res))"
    using complete by blast
  show ?thesis
    using run iff present this_year fields by blast
qed

text \<open>The example company: one filing, of fiscal year 2015, with nothing missing.\<close>

theorem complete_case_witness:
  "\<exists>res. process_company example_read float_dec (ascii ''E00001'') example_info [example_meta] Map.empty
           = Inr res \<and>
         example_mj \<in> set (mj_inputs res) \<and> mj_fiscal_year example_mj = Some 2015"
proof -
  have fy: "FISCAL_YEAR_MIN \<le> 2015" "2015 \<le> FISCAL_YEAR_MAX"
    by (simp_all add: FISCAL_YEAR_MIN_def FISCAL_YEAR_MAX_def)
  have sel: "select_best_tsv (year_metas_of (group_by_year [example_meta]) 2015) (ascii ''E00001'') 2015
      = (Some example_meta, [])"
    by (simp add: year_metas_of_group example_meta_def select_best_tsv_def)
  have ex: "extract_mj_data_from_tsv example_read float_dec (meta_tsv_path example_meta) example_meta
      example_info = (Some example_mj, [], Some example_debug)"
    using example_extract by (simp add: example_meta_def)
  from complete_case_iff_no_missing_reason[OF fy sel ex, of Map.empty]
  show ?thesis
    by (auto simp: example_mj_def)
qed

section \<open>The synthesis rule of a record\<close>

lemma PLUS_E_not_NO_BASE: "PLUS_E \<noteq> NO_BASE"
  by (simp add: PLUS_E_def NO_BASE_def ascii_def)

text \<open>
  C10. The fields \<open>rec_rule\<close>, \<open>rec_used_base_eid\<close> and
  \<open>rec_used_eclaims_eid\<close> of a record come from the resolution at the current period
  end alone: \<open>rec_rule\<close> is \<open>PLUS_E\<close> if and only if the receivables base
  resolved there and \<open>NO_BASE\<close> otherwise, whatever the prior period end gives; the
  tags matched at each period end appear in the Receivables-Debug Log. Every record of
  the complete-case output carries \<open>PLUS_E\<close>.
\<close>

theorem rec_rule_from_current_period_end:
  assumes "extract_mj_data_from_tsv read_tsv fl p meta info = (Some mj, reasons, dbg)"
  shows "(\<exists>df d. read_tsv p = Inr df \<and> dbg = Some d \<and>
     (let ct = (if check_has_consolidated_data df (Some ELEMENT_NET_SALES) then RENKETSU else KOBETSU);
          base = extract_value_with_fallback_and_eid fl df ELEMENT_REC_BASE TOUKIMATSU JITEN ct;
          claims = extract_value_with_fallback_and_eid fl df ELEMENT_ECLAIMS TOUKIMATSU JITEN ct;
          base1 = extract_value_with_fallback_and_eid fl df ELEMENT_REC_BASE ZENKIMATSU JITEN ct;
          claims1 = extract_value_with_fallback_and_eid fl df ELEMENT_ECLAIMS ZENKIMATSU JITEN ct
      in (mj_rec_rule mj = Some PLUS_E \<longleftrightarrow> fst base \<noteq> None) \<and>
         (mj_rec_rule mj = Some NO_BASE \<longleftrightarrow> fst base = None) \<and>
         rec_used_base_eid mj = Some (or_empty (snd base)) \<and>
         rec_used_eclaims_eid mj = Some (or_empty (snd claims)) \<and>
         rd_rec_rule d = mj_rec_rule mj \<and>
         rec_used_base_eid_end_t d = Some (or_empty (snd base)) \<and>
         rec_used_base_eid_end_t1 d = Some (or_empty (snd base1)) \<and>
         rec_used_eclaims_eid_end_t d = Some (or_empty (snd claims)) \<and>
         rec_used_eclaims_eid_end_t1 d = Some (or_empty (snd claims1)))) \<and>
    (reasons = [] \<longrightarrow> mj_rec_rule mj = Some PLUS_E) \<and>
    (\<exists>res. process_company read_tsv fl code info metas nj = Inr res \<and>
       (\<forall>rec \<in> set (mj_inputs res). mj_rec_rule rec = Some PLUS_E))"
proof (intro conjI)
  from assms obtain df where rd: "read_tsv p = Inr df"
    and mj: "mj = the (fst (extract_mj_data_from_tsv read_tsv fl p meta info))"
    and dbg: "dbg = snd (snd (extract_mj_data_from_tsv read_tsv fl p meta info))"
    by (rule extract_SomeE)
  note f = extract_Inr_fields[where read_tsv=read_tsv and p=p and fl=fl and meta=meta and info=info,
      OF rd]
  from f(2) dbg obtain d where d: "dbg = Some d" by auto
  have d': "d = the (snd (snd (extract_mj_data_from_tsv read_tsv fl p meta info)))"
    using d dbg by (metis option.sel)
  note g = f[folded mj d']
  show "\<exists>df d. read_tsv p = Inr df \<and> dbg = Some d \<and>
     (let ct = (if check_has_consolidated_data df (Some ELEMENT_NET_SALES) then RENKETSU else KOBETSU);
          base = extract_value_with_fallback_and_eid fl df ELEMENT_REC_BASE TOUKIMATSU JITEN ct;
          claims = extract_value_with_fallback_and_eid fl df ELEMENT_ECLAIMS TOUKIMATSU JITEN ct;
          base1 = extract_value_with_fallback_and_eid fl df ELEMENT_REC_BASE ZENKIMATSU JITEN ct;
          claims1 = extract_value_with_fallback_and_eid fl df ELEMENT_ECLAIMS ZENKIMATSU JITEN ct
      in (mj_rec_rule mj = Some PLUS_E \<longleftrightarrow> fst base \<noteq> None) \<and>
         (mj_rec_rule mj = Some NO_BASE \<longleftrightarrow> fst base = None) \<and>
         rec_used_base_eid mj = Some (or_empty (snd base)) \<and>
         rec_used_eclaims_eid mj = Some (or_empty (snd claims)) \<and>
         rd_rec_rule d = mj_rec_rule mj \<and>
         rec_used_base_eid_end_t d = Some (or_empty (snd base)) \<and>
         rec_used_base_eid_end_t1 d = Some (or_empty (snd base1)) \<and>
         rec_used_eclaims_eid_end_t d = Some (or_empty (snd claims)) \<and>
         rec_used_eclaims_eid_end_t1 d = Some (or_empty (snd claims1)))"
    unfolding Let_def
    by (rule exI[of _ df], rule exI[of _ d])
       (simp add: rd d g(20-23) g(25-28) PLUS_E_not_NO_BASE PLUS_E_not_NO_BASE[symmetric])
  show "reasons = [] \<longrightarrow> mj_rec_rule mj = Some PLUS_E"
    using extract_complete[of read_tsv fl p meta info "Some mj" dbg] assms by auto
next
  from process_company_records[of read_tsv fl code info metas nj]
  obtain res where run: "process_company read_tsv fl code info metas nj = Inr res"
    and origin: "\<forall>rec \<in> set (mj_inputs res). \<exists>fy chosen dbg.
         FISCAL_YEAR_MIN \<le> fy \<and> fy \<le> FISCAL_YEAR_MAX \<and>
         fst (select_best_tsv (year_metas_of (group_by_year metas) fy) code fy) = Some chosen \<and>
         extract_mj_data_from_tsv read_tsv fl (meta_tsv_path chosen) chosen info = (Some rec, [], dbg)"
    by (elim exE conjE) (rule that)
  have "mj_rec_rule rec = Some PLUS_E" if "rec \<in> set (mj_inputs res)" for rec
  proof -
    from origin that obtain chosen' dbg'
      where "extract_mj_data_from_tsv read_tsv fl (meta_tsv_path chosen') chosen' info = (Some rec, [], dbg')"
      by blast
    from extract_complete[OF this] show ?thesis by simp
  qed
  with run show "\<exists>res. process_company read_tsv fl code info metas nj = Inr res \<and>
       (\<forall>rec \<in> set (mj_inputs res). mj_rec_rule rec = Some PLUS_E)"
    by blast
qed


theorem rec_rule_witness:
  "mj_rec_rule example_mj = Some PLUS_E \<and>
   rec_used_base_eid example_mj = Some (ascii ''NotesAndAccountsReceivableTrade'') \<and>
   (\<exists>res. process_company example_read float_dec (ascii ''E00001'') example_info [example_meta] Map.empty
            = Inr res)"
  using rec_rule_from_current_period_end[OF example_extract, of "ascii ''E00001''" "[example_meta]" Map.empty]
  by (auto simp: example_mj_def)

section \<open>One scope per filing\<close>

lemma pl_eq_True: "pl_eq c s = Some True \<longleftrightarrow> c = Some s"
  by (cases c) (auto simp: pl_eq_def)

lemma pl_and_True: "pl_and a b = Some True \<longleftrightarrow> a = Some True \<and> b = Some True"
  by (cases a; cases b) (auto simp: pl_and_def)

lemma match_expr_True:
  "match_expr full rel per cons r = Some True \<longleftrightarrow>
     element_id r = Some full \<and> relative_year r = Some rel \<and> period_type r = Some per \<and>
     consolidated r = Some cons"
  by (simp add: match_expr_def pl_and_True pl_eq_True)

lemma filtered_rows_restrict:
  "filtered_rows (restrict_scope cons df) full rel per cons = filtered_rows df full rel per cons"
proof -
  have "pl_filter (match_expr full rel per cons) (filter (\<lambda>r. consolidated r = Some cons) rs) =
        pl_filter (match_expr full rel per cons) rs" for rs
    unfolding pl_filter_def filter_filter
    by (rule filter_cong) (auto simp: match_expr_True)
  then show ?thesis
    by (simp add: filtered_rows_def restrict_scope_def)
qed

lemma try_element_restrict:
  "try_element fl (restrict_scope cons df) full rel per cons = try_element fl df full rel per cons"
proof -
  have "row_value (restrict_scope cons df) = row_value df"
    and "row_unit (restrict_scope cons df) = row_unit df"
    by (auto simp: row_value_def row_unit_def restrict_scope_def)
  then show ?thesis
    by (simp add: try_element_def filtered_rows_restrict split: option.splits)
qed

lemma extract_value_polars_restrict:
  "extract_value_polars fl (restrict_scope cons df) ids rel per cons prefix =
   extract_value_polars fl df ids rel per cons prefix"
  by (induction ids) (simp_all add: try_element_restrict split: option.splits)

lemma extract_value_polars_with_eid_restrict:
  "extract_value_polars_with_eid fl (restrict_scope cons df) ids rel per cons prefix =
   extract_value_polars_with_eid fl df ids rel per cons prefix"
  by (induction ids) (simp_all add: try_element_restrict split: option.splits)

lemma RENKETSU_not_KOBETSU: "RENKETSU \<noteq> KOBETSU"
  by (simp add: RENKETSU_def KOBETSU_def)

lemma check_restrict:
  "check_has_consolidated_data
     (restrict_scope (if check_has_consolidated_data df ids then RENKETSU else KOBETSU) df) ids =
   check_has_consolidated_data df ids"
proof (cases "check_has_consolidated_data df ids")
  case True
  have "pl_filter (\<lambda>r. pl_eq (consolidated r) RENKETSU)
          (filter (\<lambda>r. consolidated r = Some RENKETSU) rs) =
        pl_filter (\<lambda>r. pl_eq (consolidated r) RENKETSU) rs" for rs
    unfolding pl_filter_def filter_filter
    by (rule filter_cong) (auto simp: pl_eq_True)
  then have "check_has_consolidated_data (restrict_scope RENKETSU df) ids =
      check_has_consolidated_data df ids"
    by (simp add: check_has_consolidated_data_def restrict_scope_def)
  with True show ?thesis by simp
next
  case False
  have "pl_filter (\<lambda>r. pl_eq (consolidated r) RENKETSU)
          (filter (\<lambda>r. consolidated r = Some KOBETSU) rs) = []" for rs
    unfolding pl_filter_def filter_filter
    by (auto simp: pl_eq_True RENKETSU_not_KOBETSU[symmetric] filter_empty_conv)
  then have "\<not> check_has_consolidated_data (restrict_scope KOBETSU df) ids"
    by (simp add: check_has_consolidated_data_def restrict_scope_def Let_def)
  with False show ?thesis by simp
qed

lemma extract_restrict:
  fixes fl :: "pystr \<Rightarrow> real option"
  shows "extract_mj_data_from_tsv
     (\<lambda>q. Inr (restrict_scope
                 (if check_has_consolidated_data df (Some ELEMENT_NET_SALES) then RENKETSU else KOBETSU) df))
     fl p meta info =
   extract_mj_data_from_tsv (\<lambda>q. Inr df) fl p meta info"
proof (cases "check_has_consolidated_data df (Some ELEMENT_NET_SALES)")
  case True
  have c: "check_has_consolidated_data (restrict_scope RENKETSU df) (Some ELEMENT_NET_SALES)"
    using check_restrict[of df "Some ELEMENT_NET_SALES"] True by simp
  show ?thesis
    by (simp add: extract_mj_data_from_tsv_def Let_def True c extract_value_with_fallback_def
        extract_value_with_fallback_and_eid_def extract_value_polars_restrict
        extract_value_polars_with_eid_restrict)
next
  case False
  have c: "\<not> check_has_consolidated_data (restrict_scope KOBETSU df) (Some ELEMENT_NET_SALES)"
    using check_restrict[of df "Some ELEMENT_NET_SALES"] False by simp
  show ?thesis
    by (simp add: extract_mj_data_from_tsv_def Let_def False c extract_value_with_fallback_def
        extract_value_with_fallback_and_eid_def extract_value_polars_restrict
        extract_value_polars_with_eid_restrict)
qed

lemma consolidated_tag_found_iff:
  "consolidated_tag_found cols rs ids \<longleftrightarrow>
     ids \<noteq> [] \<and> COL_ELEMENT_ID \<in> set cols \<and> COL_RELATIVE_YEAR \<in> set cols \<and>
     (\<exists>r \<in> set rs. \<exists>e \<in> set ids. element_id r = Some (JPPFS_PREFIX @ e) \<and> relative_year r = Some TOUKI)"
  by (induction ids) (auto simp: pl_filter_def filter_empty_conv pl_and_True pl_eq_True)

lemma check_has_consolidated_data_iff:
  "check_has_consolidated_data df (Some ids) \<longleftrightarrow>
     ids \<noteq> [] \<and> COL_CONSOLIDATED \<in> set (df_columns df) \<and> COL_ELEMENT_ID \<in> set (df_columns df) \<and>
     COL_RELATIVE_YEAR \<in> set (df_columns df) \<and>
     (\<exists>r \<in> set (df_rows df). \<exists>e \<in> set ids.
        consolidated r = Some RENKETSU \<and> element_id r = Some (JPPFS_PREFIX @ e) \<and>
        relative_year r = Some TOUKI)"
  by (auto simp: check_has_consolidated_data_def Let_def consolidated_tag_found_iff pl_filter_def
      filter_empty_conv pl_eq_True)


text \<open>
  C8. For a filing that loads, the scope is decided once, from the table alone:
  consolidated if and only if some row of consolidated scope and of the current period
  carries one of the net-sales tags. The record and the debug entry are flagged with
  that decision, every resolved field is resolved in that one scope, and the whole
  result is the same when the table is cut down to the rows of that scope: no field
  reads a row of the other scope.
\<close>

theorem single_scope_per_filing:
  fixes fl :: "pystr \<Rightarrow> real option"
  assumes rd: "read_tsv p = Inr df"
  shows "\<exists>mj reasons d.
     extract_mj_data_from_tsv read_tsv fl p meta info = (Some mj, reasons, Some d) \<and>
     (let has = check_has_consolidated_data df (Some ELEMENT_NET_SALES);
          ct = (if has then RENKETSU else KOBETSU)
      in (has \<longleftrightarrow>
            COL_CONSOLIDATED \<in> set (df_columns df) \<and> COL_ELEMENT_ID \<in> set (df_columns df) \<and>
            COL_RELATIVE_YEAR \<in> set (df_columns df) \<and>
            (\<exists>r \<in> set (df_rows df). \<exists>e \<in> set ELEMENT_NET_SALES.
               consolidated r = Some RENKETSU \<and> element_id r = Some (JPPFS_PREFIX @ e) \<and>
               relative_year r = Some TOUKI)) \<and>
         mj_is_consolidated mj = Some has \<and> rd_is_consolidated d = Some has \<and>
         rev_t mj = extract_value_with_fallback fl df ELEMENT_NET_SALES TOUKI KIKAN ct \<and>
         rev_t1 mj = extract_value_with_fallback fl df ELEMENT_NET_SALES ZENKI KIKAN ct \<and>
         ni_t mj = extract_value_with_fallback fl df ELEMENT_PROFIT_LOSS TOUKI KIKAN ct \<and>
         cfo_t mj = extract_value_with_fallback fl df ELEMENT_OPERATING_CF TOUKI KIKAN ct \<and>
         assets_prev_end mj = extract_value_with_fallback fl df ELEMENT_ASSETS ZENKIMATSU JITEN ct \<and>
         ppe_end_t mj = extract_value_with_fallback fl df ELEMENT_PPE TOUKIMATSU JITEN ct \<and>
         ar_end_t_no_e mj =
           fst (extract_value_with_fallback_and_eid fl df ELEMENT_REC_BASE TOUKIMATSU JITEN ct) \<and>
         ar_end_t1_no_e mj =
           fst (extract_value_with_fallback_and_eid fl df ELEMENT_REC_BASE ZENKIMATSU JITEN ct) \<and>
         eclaims_end_t mj =
           fst (extract_value_with_fallback_and_eid fl df ELEMENT_ECLAIMS TOUKIMATSU JITEN ct) \<and>
         eclaims_end_t1 mj =
           fst (extract_value_with_fallback_and_eid fl df ELEMENT_ECLAIMS ZENKIMATSU JITEN ct) \<and>
         extract_mj_data_from_tsv
           (\<lambda>q. Inr (df\<lparr> df_rows := filter (\<lambda>r. consolidated r = Some ct) (df_rows df) \<rparr>))
           fl p meta info =
         extract_mj_data_from_tsv read_tsv fl p meta info)"
proof -
  let ?E = "extract_mj_data_from_tsv read_tsv fl p meta info"
  note f = extract_Inr_fields[where read_tsv=read_tsv and p=p and fl=fl and meta=meta and info=info,
      OF rd]
  from f(1,2) obtain mj d where mj: "fst ?E = Some mj" and d: "snd (snd ?E) = Some d"
    by blast
  have E: "?E = (Some mj, fst (snd ?E), Some d)"
    using mj d by (metis prod.collapse)
  have mj': "mj = the (fst ?E)" and d': "d = the (snd (snd ?E))"
    using mj d by simp_all
  note g = f[folded mj' d']
  have ne: "ELEMENT_NET_SALES \<noteq> []"
    by (simp add: ELEMENT_NET_SALES_def)
  have same: "?E = extract_mj_data_from_tsv (\<lambda>q. Inr df) fl p meta info"
    unfolding extract_mj_data_from_tsv_def rd by (rule refl)
  have frame: "extract_mj_data_from_tsv
           (\<lambda>q. Inr (df\<lparr> df_rows := filter (\<lambda>r. consolidated r =
               Some (if check_has_consolidated_data df (Some ELEMENT_NET_SALES) then RENKETSU else KOBETSU))
               (df_rows df) \<rparr>))
           fl p meta info = ?E"
    using extract_restrict[of df fl p meta info] unfolding restrict_scope_def same .
  show ?thesis
    unfolding Let_def
    apply (rule exI[of _ mj], rule exI[of _ "fst (snd ?E)"], rule exI[of _ d])
    apply (intro conjI)
                apply (rule E)
               apply (simp add: check_has_consolidated_data_iff ne)
              apply (rule g(3) g(24) g(5-14) frame)+
    done
qed


text \<open>The example filing is consolidated.\<close>

theorem single_scope_witness:
  "example_read example_path = Inr example_df \<and>
   check_has_consolidated_data example_df (Some ELEMENT_NET_SALES) \<and>
   mj_is_consolidated example_mj = Some True \<and>
   rev_t example_mj = extract_value_with_fallback float_dec example_df ELEMENT_NET_SALES TOUKI KIKAN RENKETSU"
proof -
  have rd: "example_read example_path = Inr example_df"
    by (simp add: example_read_def)
  from single_scope_per_filing[where read_tsv=example_read and p=example_path and df=example_df
      and fl=float_dec and meta=example_meta and info=example_info, OF rd]
  obtain mj reasons d
    where "extract_mj_data_from_tsv example_read float_dec example_path example_meta example_info
             = (Some mj, reasons, Some d)"
      and "mj_is_consolidated mj = Some (check_has_consolidated_data example_df (Some ELEMENT_NET_SALES))"
      and "rev_t mj = extract_value_with_fallback float_dec example_df ELEMENT_NET_SALES TOUKI KIKAN
             (if check_has_consolidated_data example_df (Some ELEMENT_NET_SALES) then RENKETSU else KOBETSU)"
    unfolding Let_def by (elim exE conjE) (rule that)
  then show ?thesis
    using rd example_extract example_consolidated by simp
qed

section \<open>Properties of the Filing Selector\<close>

lemma select_best_tsv_sorted:
  assumes "length metas > 1"
  shows "select_best_tsv metas code fy =
     (Some (fst (hd (py_sort_reverse dt_key (map with_dt metas)))),
      map (\<lambda>x. \<lparr> dl_edinet_code = code, dl_fiscal_year = fy,
                  chosen_tsv = path_name (meta_tsv_path (fst (hd (py_sort_reverse dt_key (map with_dt metas))))),
                  chosen_submit_datetime =
                    meta_submit_datetime (fst (hd (py_sort_reverse dt_key (map with_dt metas)))),
                  skipped_tsv = path_name (meta_tsv_path (fst x)),
                  skipped_reason = DUPLICATE_SKIPPED \<rparr>)
          (tl (py_sort_reverse dt_key (map with_dt metas))))"
proof -
  from assms obtain m m' ms where "metas = m # m' # ms"
    by (cases metas; cases "tl metas") auto
  then show ?thesis
    by (simp add: select_best_tsv_def Let_def)
qed

lemma dt_key_with_dt: "dt_key (with_dt m) = (or_empty (meta_submit_datetime m), path_str (meta_tsv_path m))"
  by (simp add: dt_key_def with_dt_def)

lemma inj_on_dt_key:
  assumes "distinct (map (\<lambda>m. path_str (meta_tsv_path m)) metas)"
  shows "inj_on (\<lambda>m. dt_key (with_dt m)) (set metas)"
proof (rule inj_onI)
  fix a b assume "a \<in> set metas" "b \<in> set metas" "dt_key (with_dt a) = dt_key (with_dt b)"
  then have "path_str (meta_tsv_path a) = path_str (meta_tsv_path b)"
    by (simp add: dt_key_with_dt)
  with assms \<open>a \<in> set metas\<close> \<open>b \<in> set metas\<close> show "a = b"
    by (meson distinct_map inj_onD)
qed

lemma no_timestamp_first:
  assumes "or_empty (meta_submit_datetime m) = []" "or_empty (meta_submit_datetime m') \<noteq> []"
  shows "dt_key (with_dt m) < dt_key (with_dt m')"
proof -
  from assms(2) obtain c cs where "or_empty (meta_submit_datetime m') = c # cs"
    by (cases "or_empty (meta_submit_datetime m')") auto
  with assms(1) show ?thesis
    by (simp add: dt_key_with_dt less_prod_def)
qed

lemma sorted_le_last: "sorted xs \<Longrightarrow> x \<in> set xs \<Longrightarrow> x \<le> last xs"
  by (cases xs rule: rev_cases) (auto simp: sorted_append)

text \<open>
  C6. With more than one eligible filing for a company-year, the selector's order is
  a rearrangement \<open>ys\<close> of the filings that ascends by (submission timestamp,
  file path), a filing without a timestamp having the empty one, which is below every
  other; the selected filing is the last of \<open>ys\<close>, so no filing has a greater
  key. The Duplicate-Filing Log gets one entry for each other filing of \<open>ys\<close>
  and none for the selected one. With distinct paths \<open>ys\<close> is the ascending sort
  of the filings.
\<close>

theorem select_best_tsv_last_in_order:
  assumes many: "length metas > 1"
  shows "\<exists>chosen ys.
     select_best_tsv metas code fy =
       (Some chosen,
        map (\<lambda>m. \<lparr> dl_edinet_code = code, dl_fiscal_year = fy,
                    chosen_tsv = path_name (meta_tsv_path chosen),
                    chosen_submit_datetime = meta_submit_datetime chosen,
                    skipped_tsv = path_name (meta_tsv_path m),
                    skipped_reason = DUPLICATE_SKIPPED \<rparr>)
            (rev (butlast ys))) \<and>
     mset ys = mset metas \<and>
     sorted (map (\<lambda>m. dt_key (with_dt m)) ys) \<and>
     chosen = last ys \<and>
     (\<forall>m \<in> set metas. dt_key (with_dt m) \<le> dt_key (with_dt chosen)) \<and>
     (\<forall>m m'. or_empty (meta_submit_datetime m) = [] \<and> or_empty (meta_submit_datetime m') \<noteq> []
         \<longrightarrow> dt_key (with_dt m) < dt_key (with_dt m')) \<and>
     mset (map skipped_tsv (snd (select_best_tsv metas code fy))) + {#path_name (meta_tsv_path chosen)#} =
       mset (map (\<lambda>m. path_name (meta_tsv_path m)) metas) \<and>
     length (snd (select_best_tsv metas code fy)) = length metas - 1 \<and>
     (distinct (map (\<lambda>m. path_str (meta_tsv_path m)) metas) \<longrightarrow>
        ys = sort_key (\<lambda>m. dt_key (with_dt m)) metas)"
proof -
  let ?k = "\<lambda>m. dt_key (with_dt m)"
  define zs where "zs = sort_key dt_key (rev (map with_dt metas))"
  define ys where "ys = map fst zs"
  define chosen where "chosen = last ys"
  have set_zs: "set zs = with_dt ` set metas"
    by (simp add: zs_def)
  have zs: "zs = map with_dt ys"
    unfolding ys_def using set_zs by (auto simp: with_dt_def intro!: map_idI[symmetric])
  have ne: "metas \<noteq> []" using many by auto
  then have zs_ne: "zs \<noteq> []" and ys_ne: "ys \<noteq> []"
    using set_zs by (auto simp: ys_def)
  have srt: "py_sort_reverse dt_key (map with_dt metas) = rev zs"
    by (simp add: py_sort_reverse_def zs_def)
  have hd: "fst (hd (rev zs)) = chosen"
    using zs_ne by (simp add: hd_rev chosen_def ys_def last_map)
  have tl: "tl (rev zs) = map with_dt (rev (butlast ys))"
    unfolding zs by (cases ys rule: rev_cases) (simp_all add: rev_map)
  have sel: "select_best_tsv metas code fy =
       (Some chosen,
        map (\<lambda>m. \<lparr> dl_edinet_code = code, dl_fiscal_year = fy,
                    chosen_tsv = path_name (meta_tsv_path chosen),
                    chosen_submit_datetime = meta_submit_datetime chosen,
                    skipped_tsv = path_name (meta_tsv_path m),
                    skipped_reason = DUPLICATE_SKIPPED \<rparr>)
            (rev (butlast ys)))"
    unfolding select_best_tsv_sorted[OF many] srt hd tl
    by (simp add: with_dt_def o_def)
  have ms: "mset ys = mset metas"
    by (simp add: ys_def zs_def multiset.map_comp o_def with_dt_def)
  have sorted: "sorted (map ?k ys)"
    using sorted_sort_key[of dt_key "rev (map with_dt metas)"]
    by (simp add: zs_def[symmetric] zs o_def)
  have set_ys: "set ys = set metas"
    using ms by (rule mset_eq_setD)
  have mx: "\<forall>m \<in> set metas. ?k m \<le> ?k chosen"
  proof
    fix m assume "m \<in> set metas"
    then have "?k m \<in> set (map ?k ys)"
      by (simp add: set_ys)
    from sorted_le_last[OF sorted this] show "?k m \<le> ?k chosen"
      using ys_ne by (simp add: chosen_def last_map)
  qed
  have split: "add_mset chosen (mset (butlast ys)) = mset ys"
    using ys_ne unfolding chosen_def by (cases ys rule: rev_cases) simp_all
  have "mset (map skipped_tsv (snd (select_best_tsv metas code fy))) =
        image_mset (\<lambda>m. path_name (meta_tsv_path m)) (mset (butlast ys))"
    unfolding sel by (simp add: o_def)
  then have "mset (map skipped_tsv (snd (select_best_tsv metas code fy))) +
        {#path_name (meta_tsv_path chosen)#} =
        image_mset (\<lambda>m. path_name (meta_tsv_path m)) (add_mset chosen (mset (butlast ys)))"
    by simp
  then have once: "mset (map skipped_tsv (snd (select_best_tsv metas code fy))) +
        {#path_name (meta_tsv_path chosen)#} =
       mset (map (\<lambda>m. path_name (meta_tsv_path m)) metas)"
    unfolding split ms by simp
  have "length ys = length metas"
    using ms by (rule mset_eq_length)
  then have len: "length (snd (select_best_tsv metas code fy)) = length metas - 1"
    unfolding sel by simp
  have dist: "distinct (map (\<lambda>m. path_str (meta_tsv_path m)) metas) \<longrightarrow> ys = sort_key ?k metas"
  proof
    assume "distinct (map (\<lambda>m. path_str (meta_tsv_path m)) metas)"
    from sort_key_inj_key_eq[OF ms[symmetric] inj_on_dt_key[OF this] sorted]
    show "ys = sort_key ?k metas" by simp
  qed
  have first: "\<forall>m m'. or_empty (meta_submit_datetime m) = [] \<and> or_empty (meta_submit_datetime m') \<noteq> []
         \<longrightarrow> dt_key (with_dt m) < dt_key (with_dt m')"
    using no_timestamp_first by blast
  have ch: "chosen = last ys" by (rule chosen_def)
  show ?thesis
    by (rule exI[of _ chosen], rule exI[of _ ys], intro conjI)
       (rule sel ms sorted ch mx first once len dist)+
qed

text \<open>
  The example filing and its amendment: the amendment, submitted later, is selected
  and the original is logged as skipped, in either input order.
\<close>

lemma example_select:
  "select_best_tsv [example_meta, example_amended] (ascii ''E00001'') 2015 =
     (Some example_amended,
      [\<lparr> dl_edinet_code = ascii ''E00001'', dl_fiscal_year = 2015,
         chosen_tsv = ascii ''S100BBBB.tsv'', chosen_submit_datetime = Some (ascii ''2016-08-01''),
         skipped_tsv = ascii ''S100AAAA.tsv'', skipped_reason = DUPLICATE_SKIPPED \<rparr>])"
  by (simp add: select_best_tsv_def py_sort_reverse_def with_dt_def dt_key_def or_empty_def
      example_amended_def example_meta_def example_path_def ascii_def less_eq_prod_def)

theorem select_best_tsv_witness:
  "1 < length [example_meta, example_amended] \<and>
   fst (select_best_tsv [example_meta, example_amended] (ascii ''E00001'') 2015) = Some example_amended \<and>
   map skipped_tsv (snd (select_best_tsv [example_meta, example_amended] (ascii ''E00001'') 2015))
     = [ascii ''S100AAAA.tsv'']"
  using select_best_tsv_last_in_order[of "[example_meta, example_amended]" "ascii ''E00001''" 2015]
  by (simp add: example_select)

lemma mset_eq_singleton: "mset xs = {#x#} \<Longrightarrow> xs = [x]"
  by (cases xs) auto

text \<open>
  C7. For filings with pairwise distinct file paths, the selector gives the same
  result, the selected filing and the log alike, on every rearrangement of the input
  list.
\<close>

theorem select_best_tsv_order_independent:
  assumes dist: "distinct (map (\<lambda>m. path_str (meta_tsv_path m)) metas)"
    and perm: "mset metas' = mset metas"
  shows "select_best_tsv metas' code fy = select_best_tsv metas code fy"
proof -
  have len: "length metas' = length metas"
    using perm by (rule mset_eq_length)
  consider "metas = []" | m where "metas = [m]" | "length metas > 1"
    by (cases metas; cases "tl metas") auto
  then show ?thesis
  proof cases
    case 1
    with perm show ?thesis by simp
  next
    case 2
    with perm have "metas' = [m]" by (simp add: mset_eq_singleton)
    with 2 show ?thesis by simp
  next
    case 3
    then have many': "length metas' > 1" by (simp add: len)
    have "inj_on (dt_key \<circ> with_dt) (set metas)"
      using inj_on_dt_key[OF dist] by (simp add: o_def)
    then have "inj_on dt_key (with_dt ` set metas)"
      by (rule inj_on_imageI)
    then have inj: "inj_on dt_key (set (rev (map with_dt metas')))"
      using mset_eq_setD[OF perm] by simp
    have "mset (rev (map with_dt metas')) = mset (rev (map with_dt metas))"
      using perm by simp
    from sort_key_eq_sort_key[OF this inj]
    have "py_sort_reverse dt_key (map with_dt metas') = py_sort_reverse dt_key (map with_dt metas)"
      by (simp add: py_sort_reverse_def)
    then show ?thesis
      by (simp only: select_best_tsv_sorted[OF 3] select_best_tsv_sorted[OF many'])
  qed
qed

theorem select_best_tsv_order_witness:
  "distinct (map (\<lambda>m. path_str (meta_tsv_path m)) [example_meta, example_amended]) \<and>
   mset [example_amended, example_meta] = mset [example_meta, example_amended] \<and>
   fst (select_best_tsv [example_amended, example_meta] (ascii ''E00001'') 2015) = Some example_amended \<and>
   fst (select_best_tsv [example_meta, example_amended] (ascii ''E00001'') 2015) = Some example_amended"
proof -
  have d: "distinct (map (\<lambda>m. path_str (meta_tsv_path m)) [example_meta, example_amended])"
    by (simp add: example_amended_def example_meta_def example_path_def ascii_def)
  have p: "mset [example_amended, example_meta] = mset [example_meta, example_amended]"
    by simp
  from select_best_tsv_order_independent[OF d p, of "ascii ''E00001''" 2015] d p
  show ?thesis
    by (simp add: example_select)
qed

section \<open>Failure of one company\<close>

lemma collect_fold:
  "foldl collect_one st futs =
     (\<lparr> mj_inputs = mj_inputs (fst st) @
           concat (map (\<lambda>f. case snd f of Inl e \<Rightarrow> [] | Inr r \<Rightarrow> mj_inputs r) futs),
        missing_logs = missing_logs (fst st) @
           concat (map (\<lambda>f. case snd f of Inl e \<Rightarrow> [] | Inr r \<Rightarrow> missing_logs r) futs),
        duplicate_logs = duplicate_logs (fst st) @
           concat (map (\<lambda>f. case snd f of Inl e \<Rightarrow> [] | Inr r \<Rightarrow> duplicate_logs r) futs),
        rec_debug_logs = rec_debug_logs (fst st) @
           concat (map (\<lambda>f. case snd f of Inl e \<Rightarrow> [] | Inr r \<Rightarrow> rec_debug_logs r) futs) \<rparr>,
      snd st @
        concat (map (\<lambda>f. case snd f of
                             Inl e \<Rightarrow> [ascii ''Error processing '' @ fst f @ ascii '': '' @ e]
                           | Inr r \<Rightarrow> []) futs))"
proof (induction futs arbitrary: st)
  case Nil
  show ?case by (cases st; cases "fst st") simp
next
  case (Cons f futs)
  show ?case
    unfolding foldl_Cons Cons.IH
    by (cases "snd f") (simp_all add: collect_one_def)
qed

lemma process_years_append:
  "process_years ex code by_year nj (fys1 @ fys2) acc =
     (case process_years ex code by_year nj fys1 acc of
        Inl e \<Rightarrow> Inl e
      | Inr acc' \<Rightarrow> process_years ex code by_year nj fys2 acc')"
  by (induction fys1 arbitrary: acc) (simp_all split: sum.splits)

lemma process_years_raises:
  assumes "process_years ex code by_year nj fys1 acc = Inr acc'"
    and "process_year ex code by_year nj fy acc' = Inl e"
  shows "process_years ex code by_year nj (fys1 @ fy # fys2) acc = Inl e"
  by (simp add: process_years_append assms)

text \<open>
  C5, as the code has it. When the body of a year raises after earlier years of the
  company completed, \<open>process_company\<close> raises and returns no list. The driver
  catches the exception, issues one warning naming the company, and goes on: the
  aggregated lists are those of the other companies, in their order, and the failed
  company contributes nothing, its completed years included.
\<close>

theorem company_failure_discards_company:
  assumes completed: "process_years ex code by_year nj fys1 acc = Inr acc'"
    and raised: "process_year ex code by_year nj fy acc' = Inl e"
  shows "process_years ex code by_year nj (fys1 @ fy # fys2) acc = Inl e \<and>
     collect_results (before @ (code, Inl e) # after) =
       (\<lparr> mj_inputs = mj_inputs (fst (collect_results before)) @ mj_inputs (fst (collect_results after)),
          missing_logs = missing_logs (fst (collect_results before)) @ missing_logs (fst (collect_results after)),
          duplicate_logs =
            duplicate_logs (fst (collect_results before)) @ duplicate_logs (fst (collect_results after)),
          rec_debug_logs =
            rec_debug_logs (fst (collect_results before)) @ rec_debug_logs (fst (collect_results after)) \<rparr>,
        snd (collect_results before) @ [ascii ''Error processing '' @ code @ ascii '': '' @ e] @
          snd (collect_results after)) \<and>
     fst (collect_results (before @ (code, Inl e) # after)) = fst (collect_results (before @ after))"
proof -
  have "process_years ex code by_year nj (fys1 @ fy # fys2) acc = Inl e"
    using completed raised by (rule process_years_raises)
  moreover have "collect_results (before @ (code, Inl e) # after) =
       (\<lparr> mj_inputs = mj_inputs (fst (collect_results before)) @ mj_inputs (fst (collect_results after)),
          missing_logs = missing_logs (fst (collect_results before)) @ missing_logs (fst (collect_results after)),
          duplicate_logs =
            duplicate_logs (fst (collect_results before)) @ duplicate_logs (fst (collect_results after)),
          rec_debug_logs =
            rec_debug_logs (fst (collect_results before)) @ rec_debug_logs (fst (collect_results after)) \<rparr>,
        snd (collect_results before) @ [ascii ''Error processing '' @ code @ ascii '': '' @ e] @
          snd (collect_results after))"
    by (simp add: collect_results_def collect_fold empty_result_def collect_one_def)
  moreover have "fst (collect_results (before @ (code, Inl e) # after)) =
      fst (collect_results (before @ after))"
    by (simp add: collect_results_def collect_fold empty_result_def collect_one_def)
  ultimately show ?thesis by blast
qed

text \<open>
  The example company with a second filing, of fiscal year 2016, on which the
  extractor call fails: the year 2015 completes with a complete record, the year 2016
  raises, and the aggregated output holds no record of the company.
\<close>

lemma example_years:
  "year_metas_of (group_by_year [example_meta, example_2016]) 2015 = [example_meta]"
  "year_metas_of (group_by_year [example_meta, example_2016]) 2016 = [example_2016]"
  by (simp_all add: year_metas_of_group example_meta_def example_2016_def)

lemma example_faulty_2015:
  "example_faulty_extract example_meta = Inr (Some example_mj, [], Some example_debug)"
  using example_extract by (simp add: example_faulty_extract_def example_meta_def)

lemma example_faulty_2016: "example_faulty_extract example_2016 = Inl (ascii ''MemoryError'')"
  by (simp add: example_faulty_extract_def example_2016_def)

lemma example_year_2015:
  "process_years example_faulty_extract (ascii ''E00001'') (group_by_year [example_meta, example_2016])
     Map.empty [2015] empty_result =
   Inr \<lparr> mj_inputs = [example_mj], missing_logs = [], duplicate_logs = [],
         rec_debug_logs = [example_debug] \<rparr>"
  by (simp add: process_year_def Let_def example_years select_best_tsv_def example_faulty_2015
      empty_result_def)

lemma example_year_2016:
  "process_year example_faulty_extract (ascii ''E00001'') (group_by_year [example_meta, example_2016])
     Map.empty 2016
     \<lparr> mj_inputs = [example_mj], missing_logs = [], duplicate_logs = [],
       rec_debug_logs = [example_debug] \<rparr> = Inl (ascii ''MemoryError'')"
  by (simp add: process_year_def Let_def example_years select_best_tsv_def example_faulty_2016)

lemma example_company_raises:
  "process_company_with example_faulty_extract (ascii ''E00001'') [example_meta, example_2016] Map.empty
     = Inl (ascii ''MemoryError'')"
proof -
  have "[FISCAL_YEAR_MIN..FISCAL_YEAR_MAX] = [2015] @ 2016 # [2017..2024]"
    by (simp add: FISCAL_YEAR_MIN_def FISCAL_YEAR_MAX_def)
  then show ?thesis
    unfolding process_company_with_def
    by (simp only: process_years_raises[OF example_year_2015 example_year_2016])
qed

theorem company_failure_counterexample:
  "process_years example_faulty_extract (ascii ''E00001'') (group_by_year [example_meta, example_2016])
     Map.empty [2015] empty_result =
     Inr \<lparr> mj_inputs = [example_mj], missing_logs = [], duplicate_logs = [],
           rec_debug_logs = [example_debug] \<rparr> \<and>
   process_company_with example_faulty_extract (ascii ''E00001'') [example_meta, example_2016] Map.empty
     = Inl (ascii ''MemoryError'') \<and>
   collect_results
     [(ascii ''E00001'',
       process_company_with example_faulty_extract (ascii ''E00001'') [example_meta, example_2016] Map.empty)]
     = (empty_result, [ascii ''Error processing E00001: MemoryError'']) \<and>
   example_mj \<notin> set (mj_inputs (fst (collect_results
     [(ascii ''E00001'',
       process_company_with example_faulty_extract (ascii ''E00001'') [example_meta, example_2016]
         Map.empty)])))"
proof -
  let ?run = "process_company_with example_faulty_extract (ascii ''E00001'')
                [example_meta, example_2016] Map.empty"
  have c: "collect_results [(ascii ''E00001'', ?run)] =
      (empty_result, [ascii ''Error processing E00001: MemoryError''])"
    unfolding example_company_raises
    by (simp add: collect_results_def collect_one_def ascii_def)
  have d: "example_mj \<notin> set (mj_inputs (fst (collect_results [(ascii ''E00001'', ?run)])))"
    unfolding c by (simp add: empty_result_def)
  show ?thesis
    by (intro conjI) (rule example_year_2015 example_company_raises c d)+
qed

theorem company_failure_witness:
  "process_years example_faulty_extract (ascii ''E00001'') (group_by_year [example_meta, example_2016])
     Map.empty ([2015] @ 2016 # [2017, 2018]) empty_result = Inl (ascii ''MemoryError'') \<and>
   fst (collect_results ([] @ (ascii ''E00001'', Inl (ascii ''MemoryError'')) # [])) =
     fst (collect_results ([] @ []))"
  using company_failure_discards_company[OF example_year_2015 example_year_2016, of "[2017, 2018]" "[]" "[]"]
  by blast

section \<open>Properties of the Fact Resolver\<close>

text \<open>
  The resolver takes the candidate tags in order and stops at the first that yields a
  value: it returns that value, the greatest of the values its surviving rows
  normalize to, with the tag, and returns nothing only when no candidate yields a
  value. A row survives the segment filter of the polars backend exactly when its
  context cell is not null and does not name a member other than the two scope
  members.
\<close>

lemma segment_expr_True:
  "segment_expr r = Some True \<longleftrightarrow>
     (\<exists>c. context_id r = Some c \<and>
          \<not> (py_contains c MEMBER \<and> \<not> py_contains c NON_CONSOLIDATED_MEMBER \<and>
             \<not> py_contains c CONSOLIDATED_MEMBER))"
  by (cases "context_id r") (auto simp: segment_expr_def pl_and_def pl_not_def pl_contains_def)

lemma foldl_max: "foldl (\<lambda>m w. if w > m then w else m) (v::real) ws = Max (set (v # ws))"
proof (induction ws arbitrary: v)
  case Nil
  show ?case by simp
next
  case (Cons w ws)
  have "Max (set ((if v < w then w else v) # ws)) = Max (set (v # w # ws))"
    by (cases "ws = []") (auto simp: max_def)
  then show ?case
    by (simp add: Cons.IH del: Max_insert set_simps) 
qed

lemma py_max_Max: "vs \<noteq> [] \<Longrightarrow> py_max vs = Some (Max (set vs))"
  by (cases vs) (simp_all add: py_max_def foldl_max del: foldl_Cons)

lemma extract_with_eid_fst:
  "fst (extract_value_polars_with_eid fl df ids rel per cons prefix) =
   extract_value_polars fl df ids rel per cons prefix"
  by (induction ids) (simp_all split: option.splits)

lemma extract_with_eid_first_usable:
  assumes "\<forall>e' \<in> set pre. try_element fl df (prefix @ e') rel per cons = None"
    and "try_element fl df (prefix @ e) rel per cons = Some v"
  shows "extract_value_polars_with_eid fl df (pre @ e # post) rel per cons prefix = (Some v, Some e)"
  using assms by (induction pre) simp_all

lemma extract_with_eid_absent:
  "extract_value_polars_with_eid fl df ids rel per cons prefix = (None, None) \<longleftrightarrow>
     (\<forall>e \<in> set ids. try_element fl df (prefix @ e) rel per cons = None)"
  by (induction ids) (auto split: option.splits)

lemma try_element_value:
  "try_element fl df full rel per cons =
     (case filtered_rows df full rel per cons of
        None \<Rightarrow> None
      | Some rows \<Rightarrow>
          (let vs = List.map_filter (\<lambda>r. normalize_value fl (row_value df r) (row_unit df r)) rows
           in if vs = [] then None else Some (Max (set vs))))"
proof -
  have "py_max vs = (if vs = [] then None else Some (Max (set vs)))" for vs
    by (cases "vs = []") (simp_all add: py_max_Max, simp add: py_max_def)
  then show ?thesis
    by (auto simp: try_element_def Let_def List.map_filter_simps split: option.splits)
qed

text \<open>
  C2, at a row with a null context cell. The row matches the first candidate tag,
  period, period kind and scope, its context names no member, and its value
  normalizes to 5; the polars backend drops it, because its filter expression is
  null on the row, and returns nothing. The pandas backend, whose masks treat a
  missing context as naming no member, returns 5 with the tag.
\<close>

theorem null_context_row_dropped:
  "extract_value_polars_with_eid float_dec null_context_df [ascii ''NetSales''] TOUKI KIKAN RENKETSU
     JPPFS_PREFIX = (None, None) \<and>
   extract_value_polars float_dec null_context_df [ascii ''NetSales''] TOUKI KIKAN RENKETSU
     JPPFS_PREFIX = None \<and>
   extract_value_pandas_with_eid float_dec null_context_df [ascii ''NetSales''] TOUKI KIKAN RENKETSU
     JPPFS_PREFIX = (Some 5, Some (ascii ''NetSales''))"
  by (auto simp: try_element_def pd_try_element_def filtered_rows_def null_context_df_def
      ALL_COLUMNS_def pl_filter_def match_expr_def segment_expr_def pl_and_def pl_eq_def pl_not_def
      pl_contains_def pd_mask_def pd_segment_keep_def pd_contains_def row_value_def row_unit_def
      py_max_def List.map_filter_def str_defs norm_defs)

end
